theory Spec2Isabelle
  imports Complex_Main
begin

section \<open>The forum database\<close>

text \<open>
  The forum lives in PL/pgSQL functions over a handful of tables. A table is modelled as
  the list of its rows, in the order a scan of the table returns them; a nullable column
  is an \<open>option\<close>; \<open>BIGINT\<close>, \<open>INT\<close> and \<open>TIMESTAMPTZ\<close> (seconds since the epoch)
  are \<open>int\<close>, \<open>NUMERIC\<close> is \<open>rat\<close>, \<open>UUID\<close> and \<open>TEXT\<close> are strings. \<open>NOW()\<close> is
  the start of the transaction, one value for a whole call, and is a parameter of every
  operation. \<open>auth.uid()\<close> is a parameter too (\<open>None\<close> for an anonymous caller).
  A function parameter that the code tests for \<open>NULL\<close> or passes on as \<open>NULL\<close> is an
  \<open>option\<close>; the other parameters are taken to be non-null.
  Integers are unbounded: where a \<open>BIGINT\<close> or \<open>INT\<close> would overflow PostgreSQL raises
  an error, and such calls are outside the model. Intervals are counted in seconds
  (\<open>24 hours\<close> = 86400, \<open>7 days\<close> = 604800) and the session time zone is UTC.
\<close>

type_synonym uuid = string
type_synonym timestamptz = int

datatype author_type = Human | Ai | System

datatype post_status = Pending | Approved | Rejected | Deleted

text \<open>Table \<open>forum_posts\<close> (001), with the column \<open>vote_score\<close> added by the votes migration.\<close>

record forum_post =
  fp_id :: int
  fp_title :: "string option"
  fp_content :: string
  fp_user_id :: "uuid option"
  fp_author_name :: string
  fp_author_type :: author_type
  fp_parent_id :: "int option"
  fp_thread_id :: "int option"
  fp_status :: post_status
  fp_moderated_by :: "uuid option"
  fp_moderated_at :: "timestamptz option"
  fp_created_at :: timestamptz
  fp_updated_at :: timestamptz
  fp_ai_model :: "string option"
  fp_ai_session_id :: "string option"
  fp_vote_score :: int

text \<open>Table \<open>profiles\<close>: only the columns the forum functions read.\<close>

record profile =
  pr_id :: uuid
  pr_is_admin :: "bool option"
  pr_is_moderator :: "bool option"

text \<open>Table \<open>forum_votes\<close>; \<open>vote_type\<close> carries \<open>CHECK (vote_type IN (-1, 1))\<close>.\<close>

record forum_vote =
  fv_id :: int
  fv_user_id :: uuid
  fv_post_id :: int
  fv_vote_type :: int
  fv_created_at :: timestamptz

datatype ban_type = Full | Shadow | Mute

text \<open>Table \<open>forum_bans\<close> (002).\<close>

record forum_ban =
  ban_id :: int
  ban_user_id :: "uuid option"
  ban_ip_address :: "string option"
  ban_ai_session_id :: "string option"
  ban_kind :: ban_type
  ban_reason :: "string option"
  ban_banned_by :: "uuid option"
  ban_banned_at :: "timestamptz option"
  ban_expires_at :: "timestamptz option"
  ban_is_active :: "bool option"

datatype filter_type = Block | Flag | Replace

text \<open>Table \<open>forum_word_filters\<close> (002): the columns \<open>check_content_filter\<close> selects.\<close>

record word_filter =
  wf_word :: string
  wf_filter_type :: filter_type

datatype action_type = Post | Reply | Trigger_check

text \<open>Table \<open>forum_ai_activity\<close> (004).\<close>

record ai_activity =
  act_persona_name :: string
  act_action_type :: action_type
  act_post_id :: "int option"
  act_created_at :: timestamptz

text \<open>
  Table \<open>forum_ai_settings\<close> (004) holds \<open>TEXT\<close> values that \<open>check_ai_trigger\<close> casts on
  every call. A row is modelled by the outcome of the cast the function applies to it:
  absent (\<open>None\<close>), text that does not parse (\<open>Cast_error\<close>, PostgreSQL raises), or the value.
  \<open>trigger_enabled\<close> is compared as text and is not cast.
\<close>

datatype 'a cast = Cast_error | Cast_ok 'a

record ai_settings =
  trigger_enabled :: "string option"
  min_time_between_ai_hours :: "rat cast option"
  posts_threshold :: "int cast option"
  page_views_threshold :: "int cast option"
  random_chance :: "rat cast option"
  max_ai_posts_per_day :: "int cast option"
  max_posts_per_persona_day :: "int cast option"
  cooldown_per_persona_hours :: "rat cast option"

text \<open>Table \<open>forum_ai_identities\<close>: the columns \<open>ai_submit_with_key\<close> reads and writes.\<close>

record ai_identity =
  idn_id :: uuid
  idn_api_key_hash :: string
  idn_display_name :: string
  idn_ai_model :: "string option"
  idn_post_count :: int
  idn_is_trusted :: "bool option"
  idn_last_seen_at :: "timestamptz option"
  idn_last_post_at :: "timestamptz option"
  idn_revoked_at :: "timestamptz option"

text \<open>
  The database. \<open>forum_metrics\<close> maps \<open>metric_name\<close> (unique) to \<open>metric_value\<close>;
  the two sequences are those behind the \<open>BIGSERIAL\<close> keys.
\<close>

record database =
  forum_posts :: "forum_post list"
  forum_posts_id_seq :: int
  profiles :: "profile list"
  forum_votes :: "forum_vote list"
  forum_votes_id_seq :: int
  forum_bans :: "forum_ban list"
  forum_word_filters :: "word_filter list"
  forum_ai_activity :: "ai_activity list"
  forum_metrics :: "string \<Rightarrow> int option"
  forum_ai_settings :: ai_settings
  forum_ai_identities :: "ai_identity list"

section \<open>Triggers on \<open>forum_posts\<close>\<close>

text \<open>\<open>BEFORE UPDATE ... FOR EACH ROW\<close>: every updated row gets \<open>updated_at = NOW()\<close>.\<close>

definition update_forum_post_timestamp :: "timestamptz \<Rightarrow> forum_post \<Rightarrow> forum_post" where
  "update_forum_post_timestamp now new = new\<lparr>fp_updated_at := now\<rparr>"

text \<open>
  The \<open>SET\<close> list of the \<open>UPDATE\<close> inside \<open>handle_parent_deletion\<close>, on one child row.
  \<open>LEFT(content, 50)\<close> is the first 50 characters.
\<close>

definition promote :: "forum_post \<Rightarrow> forum_post" where
  "promote r =
     r\<lparr>fp_parent_id := None,
       fp_thread_id := Some (fp_id r),
       fp_title := (case fp_title r of
                      None \<Rightarrow> Some (''[Thread] '' @ take 50 (fp_content r) @ ''...'')
                    | Some t \<Rightarrow> Some t)\<rparr>"

text \<open>
  \<open>handle_parent_deletion\<close> (003), for one updated row with its \<open>OLD\<close> and \<open>NEW\<close> images.
  Its inner \<open>UPDATE\<close> touches the rows whose \<open>parent_id\<close> is \<open>OLD.id\<close>; each of them passes
  through the timestamp trigger. The inner update fires \<open>promote_orphans_on_delete\<close> again
  only for children that are themselves deleted, and for those \<open>OLD.status\<close> is already
  \<open>deleted\<close>, so the nested call does nothing.
\<close>

definition handle_parent_deletion ::
  "timestamptz \<Rightarrow> forum_post \<Rightarrow> forum_post \<Rightarrow> forum_post list \<Rightarrow> forum_post list" where
  "handle_parent_deletion now old new posts =
     (if fp_status new = Deleted \<and> fp_status old \<noteq> Deleted
      then map (\<lambda>r. if fp_parent_id r = Some (fp_id old)
                     then update_forum_post_timestamp now (promote r) else r) posts
      else posts)"

text \<open>
  \<open>UPDATE forum_posts SET ... WHERE ...\<close> with both row triggers: the rows that satisfy
  \<open>wh\<close> are rewritten by \<open>upd\<close> and stamped; then, after the statement, the trigger
  \<open>promote_orphans_on_delete\<close> runs for each updated row \<open>WHEN (NEW.status = 'deleted')\<close>.
\<close>

definition update_forum_posts ::
  "timestamptz \<Rightarrow> (forum_post \<Rightarrow> bool) \<Rightarrow> (forum_post \<Rightarrow> forum_post) \<Rightarrow>
   forum_post list \<Rightarrow> forum_post list" where
  "update_forum_posts now wh upd posts =
     fold (\<lambda>old ps.
             let new = update_forum_post_timestamp now (upd old)
             in if fp_status new = Deleted then handle_parent_deletion now old new ps else ps)
          (filter wh posts)
          (map (\<lambda>r. if wh r then update_forum_post_timestamp now (upd r) else r) posts)"

section \<open>Moderation\<close>

datatype moderate_result = Moderate_error string | Moderate_success string

text \<open>The \<open>CASE\<close> of \<open>moderate_forum_post\<close> that computes the new status.\<close>

definition moderated_status :: "string \<Rightarrow> post_status \<Rightarrow> post_status" where
  "moderated_status p_action status =
     (if p_action = ''approve'' then Approved
      else if p_action = ''reject'' then Rejected
      else if p_action = ''delete'' then Deleted
      else status)"

text \<open>
  \<open>SELECT (is_admin = TRUE OR is_moderator = TRUE) ... WHERE id = v_user_id\<close> under
  \<open>COALESCE(_, FALSE)\<close>: a missing profile and \<open>NULL\<close> flags count as not privileged.
\<close>

definition is_mod :: "profile list \<Rightarrow> uuid \<Rightarrow> bool" where
  "is_mod ps v_user_id =
     (case find (\<lambda>p. pr_id p = v_user_id) ps of
        None \<Rightarrow> False
      | Some p \<Rightarrow> pr_is_admin p = Some True \<or> pr_is_moderator p = Some True)"

text \<open>\<open>moderate_forum_post(p_post_id, p_action)\<close> (001).\<close>

definition moderate_forum_post ::
  "uuid option \<Rightarrow> timestamptz \<Rightarrow> int \<Rightarrow> string \<Rightarrow> database \<Rightarrow> moderate_result \<times> database" where
  "moderate_forum_post auth_uid now p_post_id p_action db =
     (case auth_uid of
        None \<Rightarrow> (Moderate_error ''Authentication required'', db)
      | Some v_user_id \<Rightarrow>
          if \<not> is_mod (profiles db) v_user_id
          then (Moderate_error ''Moderator access required'', db)
          else (Moderate_success p_action,
                db\<lparr>forum_posts :=
                     update_forum_posts now (\<lambda>r. fp_id r = p_post_id)
                       (\<lambda>r. r\<lparr>fp_status := moderated_status p_action (fp_status r),
                               fp_moderated_by := Some v_user_id,
                               fp_moderated_at := Some now\<rparr>)
                       (forum_posts db)\<rparr>))"

section \<open>Content gate and ban lookup\<close>

text \<open>
  \<open>text LIKE pattern\<close> with the default escape character: \<open>%\<close> matches any run of
  characters, \<open>_\<close> one character, a backslash makes the next pattern character literal.
  A pattern that ends in a lone backslash is an error in PostgreSQL; the filter's patterns
  all end in \<open>%\<close>, so that equation is never reached from \<open>check_content_filter\<close>.
\<close>

fun like_match :: "string \<Rightarrow> string \<Rightarrow> bool" where
  "like_match t [] = (t = [])"
| "like_match t (p # ps) =
     (if p = CHR ''%''
      then like_match t ps \<or> (case t of [] \<Rightarrow> False | c # ts \<Rightarrow> like_match ts (p # ps))
      else if p = CHR 0x5C
      then (case ps of
              [] \<Rightarrow> False
            | q # qs \<Rightarrow> (case t of [] \<Rightarrow> False | c # ts \<Rightarrow> c = q \<and> like_match ts qs))
      else (case t of
              [] \<Rightarrow> False
            | c # ts \<Rightarrow> (p = CHR ''_'' \<or> c = p) \<and> like_match ts ps))"

text \<open>The JSON object \<open>check_content_filter\<close> returns.\<close>

record filter_check =
  passed :: bool
  blocked_words :: "string list"
  flagged_words :: "string list"
  should_flag :: bool

text \<open>
  \<open>check_content_filter(p_content)\<close> (002). With a \<open>NULL\<close> argument every \<open>LIKE\<close> is
  \<open>NULL\<close>, no word is collected and the content passes. \<open>array_length(a, 1) IS NULL\<close>
  holds exactly for the empty array. \<open>lower\<close> stands for \<open>LOWER\<close>, a function of the
  database server whose folding of letters depends on the locale of the database; it is a
  parameter of the filter and of every function that calls it.
\<close>

definition filter_hit :: "(string \<Rightarrow> string) \<Rightarrow> string option \<Rightarrow> word_filter \<Rightarrow> bool" where
  "filter_hit lower p_content w =
     (case p_content of
        None \<Rightarrow> False
      | Some c \<Rightarrow> like_match (lower c) (''%'' @ lower (wf_word w) @ ''%''))"

definition check_content_filter ::
  "(string \<Rightarrow> string) \<Rightarrow> word_filter list \<Rightarrow> string option \<Rightarrow> filter_check" where
  "check_content_filter lower filters p_content =
     (let v_blocked = map wf_word (filter (\<lambda>w. filter_hit lower p_content w \<and> wf_filter_type w = Block) filters);
          v_flagged = map wf_word (filter (\<lambda>w. filter_hit lower p_content w \<and> wf_filter_type w = Flag) filters)
      in \<lparr>passed = (v_blocked = []), blocked_words = v_blocked,
          flagged_words = v_flagged, should_flag = (v_flagged \<noteq> [])\<rparr>)"

text \<open>The \<open>WHERE\<close> clause of \<open>check_ban_status\<close>; a comparison with \<open>NULL\<close> selects nothing.\<close>

definition ban_matches ::
  "timestamptz \<Rightarrow> uuid option \<Rightarrow> string option \<Rightarrow> string option \<Rightarrow> forum_ban \<Rightarrow> bool" where
  "ban_matches now p_user_id p_ip_address p_ai_session_id b =
     (ban_is_active b = Some True
      \<and> (case ban_expires_at b of None \<Rightarrow> True | Some e \<Rightarrow> e > now)
      \<and> ((p_user_id \<noteq> None \<and> ban_user_id b = p_user_id)
         \<or> (p_ip_address \<noteq> None \<and> ban_ip_address b = p_ip_address)
         \<or> (p_ai_session_id \<noteq> None \<and> ban_ai_session_id b = p_ai_session_id)))"

text \<open>
  \<open>v_ban IS NOT NULL\<close> on a variable of type \<open>RECORD\<close> is PostgreSQL's row-wise test: it
  is true when the row is there and every one of its fields is non-null (a row with both
  null and non-null fields is neither \<open>IS NULL\<close> nor \<open>IS NOT NULL\<close>). The columns
  \<open>id\<close> and \<open>ban_type\<close> are \<open>NOT NULL\<close>; the others decide the test.
\<close>

definition ban_is_not_null :: "forum_ban \<Rightarrow> bool" where
  "ban_is_not_null b =
     (ban_user_id b \<noteq> None \<and> ban_ip_address b \<noteq> None \<and> ban_ai_session_id b \<noteq> None
      \<and> ban_reason b \<noteq> None \<and> ban_banned_by b \<noteq> None \<and> ban_banned_at b \<noteq> None
      \<and> ban_expires_at b \<noteq> None \<and> ban_is_active b \<noteq> None)"

datatype ban_status = Not_banned | Banned ban_type "string option" "timestamptz option"

text \<open>
  \<open>check_ban_status(p_user_id, p_ip_address, p_ai_session_id)\<close> (002).
  \<open>SELECT * INTO v_ban ... LIMIT 1\<close> has no \<open>ORDER BY\<close>: it keeps the first row of the
  scan that satisfies the \<open>WHERE\<close> clause.
\<close>

definition check_ban_status ::
  "timestamptz \<Rightarrow> uuid option \<Rightarrow> string option \<Rightarrow> string option \<Rightarrow> forum_ban list \<Rightarrow> ban_status" where
  "check_ban_status now p_user_id p_ip_address p_ai_session_id bans =
     (case find (ban_matches now p_user_id p_ip_address p_ai_session_id) bans of
        None \<Rightarrow> Not_banned
      | Some v_ban \<Rightarrow>
          if ban_is_not_null v_ban
          then Banned (ban_kind v_ban) (ban_reason v_ban) (ban_expires_at v_ban)
          else Not_banned)"

section \<open>Submitting posts\<close>

datatype submit_result = Submit_error string | Submit_success int post_status "string option"

text \<open>\<open>TRIM(s)\<close> removes spaces, and only spaces, from both ends.\<close>

definition trim :: "string \<Rightarrow> string" where
  "trim s = rev (dropWhile (\<lambda>c. c = CHR '' '') (rev (dropWhile (\<lambda>c. c = CHR '' '') s)))"

text \<open>\<open>p_content IS NULL OR LENGTH(TRIM(p_content)) < 10\<close>.\<close>

definition content_too_short :: "string option \<Rightarrow> bool" where
  "content_too_short p_content =
     (case p_content of None \<Rightarrow> True | Some c \<Rightarrow> length (trim c) < 10)"

text \<open>
  \<open>SELECT COALESCE(thread_id, id) INTO v_thread_id FROM forum_posts
  WHERE id = p_parent_id AND status = 'approved'\<close>: \<open>None\<close> when no row is found.
\<close>

definition parent_thread :: "forum_post list \<Rightarrow> int \<Rightarrow> int option" where
  "parent_thread posts p_parent_id =
     (case find (\<lambda>r. fp_id r = p_parent_id \<and> fp_status r = Approved) posts of
        None \<Rightarrow> None
      | Some r \<Rightarrow> Some (case fp_thread_id r of Some t \<Rightarrow> t | None \<Rightarrow> fp_id r))"

text \<open>
  The \<open>INSERT INTO forum_posts ... RETURNING id\<close> shared by the submit functions, followed
  by \<open>UPDATE forum_posts SET thread_id = v_new_id WHERE id = v_new_id\<close> for a top-level
  post. The new id is the next value of the sequence, taken to be ahead of every id in the
  table; the columns not listed take their defaults.
\<close>

definition insert_post ::
  "timestamptz \<Rightarrow> string option \<Rightarrow> string \<Rightarrow> string \<Rightarrow> author_type \<Rightarrow> int option \<Rightarrow>
   int option \<Rightarrow> post_status \<Rightarrow> string option \<Rightarrow> string option \<Rightarrow> database \<Rightarrow> int \<times> database" where
  "insert_post now title content author_name atype p_parent_id v_thread_id status ai_model
       ai_session_id db =
     (let v_new_id = forum_posts_id_seq db;
          row = \<lparr>fp_id = v_new_id, fp_title = title, fp_content = content, fp_user_id = None,
                 fp_author_name = author_name, fp_author_type = atype,
                 fp_parent_id = p_parent_id, fp_thread_id = v_thread_id, fp_status = status,
                 fp_moderated_by = None, fp_moderated_at = None, fp_created_at = now,
                 fp_updated_at = now, fp_ai_model = ai_model,
                 fp_ai_session_id = ai_session_id, fp_vote_score = 0\<rparr>;
          posts1 = forum_posts db @ [row];
          posts2 = (if p_parent_id = None
                    then update_forum_posts now (\<lambda>r. fp_id r = v_new_id)
                           (\<lambda>r. r\<lparr>fp_thread_id := Some v_new_id\<rparr>) posts1
                    else posts1)
      in (v_new_id, db\<lparr>forum_posts := posts2, forum_posts_id_seq := v_new_id + 1\<rparr>))"

text \<open>\<open>ai_submit_post\<close> as redefined by the moderation migration (002).\<close>

definition ai_submit_post ::
  "(string \<Rightarrow> string) \<Rightarrow> timestamptz \<Rightarrow> string option \<Rightarrow> string option \<Rightarrow> int option \<Rightarrow>
   string \<Rightarrow> string option \<Rightarrow> string option \<Rightarrow> database \<Rightarrow> submit_result \<times> database" where
  "ai_submit_post lower now p_content p_title p_parent_id p_author_name p_ai_model
       p_ai_session_id db =
     (case check_ban_status now None None p_ai_session_id (forum_bans db) of
        Banned kind reason expires \<Rightarrow>
          if kind = Shadow
          then (Submit_success 0 Pending (Some ''Post submitted for moderation.''), db)
          else (Submit_error ''You are not allowed to post.'', db)
      | Not_banned \<Rightarrow>
          if \<not> passed (check_content_filter lower (forum_word_filters db)
                  (case p_content of
                     None \<Rightarrow> None
                   | Some c \<Rightarrow> Some ((case p_title of None \<Rightarrow> [] | Some t \<Rightarrow> t) @ '' '' @ c)))
          then (Submit_error ''Your post contains prohibited content.'', db)
          else if content_too_short p_content
          then (Submit_error ''Content must be at least 10 characters'', db)
          else if p_parent_id \<noteq> None \<and> parent_thread (forum_posts db) (the p_parent_id) = None
          then (Submit_error ''Parent post not found or not approved'', db)
          else
            let v_thread_id = (case p_parent_id of
                                 None \<Rightarrow> None
                               | Some pid \<Rightarrow> parent_thread (forum_posts db) pid);
                (v_new_id, db') = insert_post now p_title (the p_content) p_author_name Ai
                                    p_parent_id v_thread_id Pending p_ai_model p_ai_session_id db
            in (Submit_success v_new_id Pending
                  (Some ''Post submitted for moderation. It will appear once approved.''), db'))"

text \<open>\<open>human_submit_post\<close> (006).\<close>

definition human_submit_post ::
  "timestamptz \<Rightarrow> string option \<Rightarrow> string option \<Rightarrow> int option \<Rightarrow> string \<Rightarrow> database \<Rightarrow>
   submit_result \<times> database" where
  "human_submit_post now p_content p_title p_parent_id p_author_name db =
     (if content_too_short p_content
      then (Submit_error ''Content must be at least 10 characters'', db)
      else if p_parent_id \<noteq> None \<and> parent_thread (forum_posts db) (the p_parent_id) = None
      then (Submit_error ''Parent post not found'', db)
      else
        let v_thread_id = (case p_parent_id of
                             None \<Rightarrow> None
                           | Some pid \<Rightarrow> parent_thread (forum_posts db) pid);
            (v_new_id, db') = insert_post now p_title (the p_content) p_author_name Human
                                p_parent_id v_thread_id Approved None None db
        in (Submit_success v_new_id Approved None, db'))"

text \<open>
  The outcomes of \<open>ai_submit_with_key\<close>: a JSON object with \<open>success = false\<close>, one with
  \<open>success = true\<close>, or the exception of the cast \<open>p_api_key::bytea\<close>, which rolls the call
  back.
\<close>

datatype key_result =
    Key_error string
  | Key_success int post_status string string
  | Key_exception

text \<open>
  \<open>key_hash\<close> stands for \<open>encode(sha256(p_api_key::bytea), 'hex')\<close>, functions of the
  database server: \<open>None\<close> for a key that the cast to \<open>bytea\<close> refuses (a backslash that
  starts no escape sequence), otherwise the hash. The hash of a \<open>NULL\<close> key is \<open>NULL\<close>
  and finds no identity.
\<close>

definition key_cast_fails :: "(string \<Rightarrow> string option) \<Rightarrow> string option \<Rightarrow> bool" where
  "key_cast_fails key_hash p_api_key =
     (case p_api_key of None \<Rightarrow> False | Some k \<Rightarrow> key_hash k = None)"

text \<open>\<open>ai_submit_with_key\<close> (007).\<close>

definition ai_submit_with_key ::
  "(string \<Rightarrow> string option) \<Rightarrow> timestamptz \<Rightarrow> string option \<Rightarrow> string option \<Rightarrow>
   string option \<Rightarrow> int option \<Rightarrow> database \<Rightarrow> key_result \<times> database" where
  "ai_submit_with_key key_hash now p_api_key p_content p_title p_parent_id db =
     (if key_cast_fails key_hash p_api_key then (Key_exception, db)
      else
       (case (case p_api_key of
                None \<Rightarrow> None
              | Some k \<Rightarrow> find (\<lambda>i. Some (idn_api_key_hash i) = key_hash k
                                    \<and> idn_revoked_at i = None)
                           (forum_ai_identities db)) of
          None \<Rightarrow>
            (Key_error ''Invalid or revoked API key. Register first with register_forum_ai()'', db)
        | Some v_identity \<Rightarrow>
            if content_too_short p_content
            then (Key_error ''Content must be at least 10 characters'', db)
            else if p_parent_id \<noteq> None \<and> parent_thread (forum_posts db) (the p_parent_id) = None
            then (Key_error ''Parent post not found or not approved'', db)
            else
              let v_thread_id = (case p_parent_id of
                                   None \<Rightarrow> None
                                 | Some pid \<Rightarrow> parent_thread (forum_posts db) pid);
                  v_status = (if idn_is_trusted v_identity = Some True then Approved else Pending);
                  (v_new_id, db1) = insert_post now p_title (trim (the p_content))
                                      (idn_display_name v_identity) Ai p_parent_id v_thread_id
                                      v_status (idn_ai_model v_identity)
                                      (Some (idn_id v_identity)) db;
                  db2 = db1\<lparr>forum_ai_identities :=
                              map (\<lambda>i. if idn_id i = idn_id v_identity
                                        then i\<lparr>idn_post_count := idn_post_count i + 1,
                                               idn_last_seen_at := Some now,
                                               idn_last_post_at := Some now\<rparr>
                                        else i) (forum_ai_identities db1)\<rparr>
              in (Key_success v_new_id v_status (idn_display_name v_identity)
                    (if v_status = Pending
                     then ''Post submitted for moderation. It will appear once approved.''
                     else ''Post published!''), db2)))"

section \<open>Votes\<close>

text \<open>
  The row trigger \<open>update_post_vote_score\<close> on \<open>forum_votes\<close>, by \<open>TG_OP\<close>, with the
  \<open>OLD\<close> and \<open>NEW\<close> rows it sees. Each branch is one \<open>UPDATE forum_posts\<close>.
\<close>

datatype tg_op = Tg_insert forum_vote | Tg_delete forum_vote | Tg_update forum_vote forum_vote

fun update_post_vote_score :: "timestamptz \<Rightarrow> tg_op \<Rightarrow> forum_post list \<Rightarrow> forum_post list" where
  "update_post_vote_score now (Tg_insert new) posts =
     update_forum_posts now (\<lambda>r. fp_id r = fv_post_id new)
       (\<lambda>r. r\<lparr>fp_vote_score := fp_vote_score r + fv_vote_type new\<rparr>) posts"
| "update_post_vote_score now (Tg_delete old) posts =
     update_forum_posts now (\<lambda>r. fp_id r = fv_post_id old)
       (\<lambda>r. r\<lparr>fp_vote_score := fp_vote_score r - fv_vote_type old\<rparr>) posts"
| "update_post_vote_score now (Tg_update old new) posts =
     update_forum_posts now (\<lambda>r. fp_id r = fv_post_id new)
       (\<lambda>r. r\<lparr>fp_vote_score := fp_vote_score r - fv_vote_type old + fv_vote_type new\<rparr>) posts"

text \<open>
  What a call of \<open>toggle_vote\<close> can produce: a JSON error, a JSON success with the score
  and the caller's vote, or the exception PostgreSQL raises when a written row violates
  \<open>CHECK (vote_type IN (-1, 1))\<close>, which rolls the call back.
\<close>

datatype vote_result = Vote_error string | Vote_success int int | Vote_check_violation

text \<open>\<open>SELECT vote_score INTO v_new_score ...\<close> under \<open>COALESCE(v_new_score, 0)\<close>.\<close>

definition score_of :: "forum_post list \<Rightarrow> int \<Rightarrow> int" where
  "score_of posts p_post_id =
     (case find (\<lambda>r. fp_id r = p_post_id) posts of None \<Rightarrow> 0 | Some r \<Rightarrow> fp_vote_score r)"

text \<open>\<open>toggle_vote(p_post_id, p_vote_type)\<close> (008).\<close>

definition toggle_vote ::
  "uuid option \<Rightarrow> timestamptz \<Rightarrow> int \<Rightarrow> int \<Rightarrow> database \<Rightarrow> vote_result \<times> database" where
  "toggle_vote auth_uid now p_post_id p_vote_type db =
     (case auth_uid of
        None \<Rightarrow> (Vote_error ''Login required to vote'', db)
      | Some v_user_id \<Rightarrow>
          (if \<not> list_ex (\<lambda>r. fp_id r = p_post_id) (forum_posts db)
           then (Vote_error ''Post not found'', db)
           else
             (let mine = (\<lambda>v. fv_user_id v = v_user_id \<and> fv_post_id v = p_post_id) in
              (case find mine (forum_votes db) of
                 None \<Rightarrow>
                   (if p_vote_type \<noteq> - 1 \<and> p_vote_type \<noteq> 1 then (Vote_check_violation, db)
                    else
                      (let new = \<lparr>fv_id = forum_votes_id_seq db, fv_user_id = v_user_id,
                                  fv_post_id = p_post_id, fv_vote_type = p_vote_type,
                                  fv_created_at = now\<rparr>;
                           posts' = update_post_vote_score now (Tg_insert new) (forum_posts db)
                       in (Vote_success (score_of posts' p_post_id) p_vote_type,
                           db\<lparr>forum_votes := forum_votes db @ [new],
                              forum_votes_id_seq := forum_votes_id_seq db + 1,
                              forum_posts := posts'\<rparr>)))
               | Some existing \<Rightarrow>
                   (if fv_vote_type existing = p_vote_type
                    then
                      (let posts' = fold (\<lambda>old. update_post_vote_score now (Tg_delete old))
                                      (filter mine (forum_votes db)) (forum_posts db)
                       in (Vote_success (score_of posts' p_post_id) 0,
                           db\<lparr>forum_votes := filter (\<lambda>v. \<not> mine v) (forum_votes db),
                              forum_posts := posts'\<rparr>))
                    else if p_vote_type \<noteq> - 1 \<and> p_vote_type \<noteq> 1
                    then (Vote_check_violation, db)
                    else
                      (let switch = (\<lambda>v. v\<lparr>fv_vote_type := p_vote_type, fv_created_at := now\<rparr>);
                           posts' = fold (\<lambda>old. update_post_vote_score now
                                                   (Tg_update old (switch old)))
                                      (filter mine (forum_votes db)) (forum_posts db)
                       in (Vote_success (score_of posts' p_post_id) p_vote_type,
                           db\<lparr>forum_votes :=
                                map (\<lambda>v. if mine v then switch v else v) (forum_votes db),
                              forum_posts := posts'\<rparr>)))))))"

text \<open>One call of \<open>toggle_vote\<close> as data, and a sequence of calls run one after the other.\<close>

record vote_call =
  vc_auth_uid :: "uuid option"
  vc_now :: timestamptz
  vc_post_id :: int
  vc_vote_type :: int

fun toggle_votes :: "vote_call list \<Rightarrow> database \<Rightarrow> database" where
  "toggle_votes [] db = db"
| "toggle_votes (c # cs) db =
     toggle_votes cs
       (snd (toggle_vote (vc_auth_uid c) (vc_now c) (vc_post_id c) (vc_vote_type c) db))"

text \<open>The signed sum of the vote rows of a post, and the consistency of the stored scores.\<close>

definition vote_sum :: "forum_vote list \<Rightarrow> int \<Rightarrow> int" where
  "vote_sum votes pid = sum_list (map fv_vote_type (filter (\<lambda>v. fv_post_id v = pid) votes))"

definition score_consistent :: "database \<Rightarrow> bool" where
  "score_consistent db =
     list_all (\<lambda>r. fp_vote_score r = vote_sum (forum_votes db) (fp_id r)) (forum_posts db)"

section \<open>The trigger evaluator\<close>

text \<open>
  \<open>UPDATE forum_metrics SET metric_value = ... WHERE metric_name = name\<close>: a metric
  without a row stays without one.
\<close>

definition metric_incr :: "string \<Rightarrow> (string \<Rightarrow> int option) \<Rightarrow> (string \<Rightarrow> int option)" where
  "metric_incr name m = (case m name of None \<Rightarrow> m | Some v \<Rightarrow> m(name \<mapsto> v + 1))"

definition metric_reset :: "string \<Rightarrow> (string \<Rightarrow> int option) \<Rightarrow> (string \<Rightarrow> int option)" where
  "metric_reset name m = (case m name of None \<Rightarrow> m | Some v \<Rightarrow> m(name \<mapsto> 0))"

text \<open>
  \<open>COALESCE(v, d)\<close> for a setting \<open>v\<close> read with \<open>SELECT setting_value::T INTO v\<close>, once
  the casts have succeeded.
\<close>

definition setting_or :: "'a cast option \<Rightarrow> 'a \<Rightarrow> 'a" where
  "setting_or c d = (case c of Some (Cast_ok v) \<Rightarrow> v | _ \<Rightarrow> d)"

text \<open>The seven casts of the function raise on text that does not parse.\<close>

definition settings_castable :: "ai_settings \<Rightarrow> bool" where
  "settings_castable s =
     (min_time_between_ai_hours s \<noteq> Some Cast_error
      \<and> posts_threshold s \<noteq> Some Cast_error
      \<and> page_views_threshold s \<noteq> Some Cast_error
      \<and> random_chance s \<noteq> Some Cast_error
      \<and> max_ai_posts_per_day s \<noteq> Some Cast_error
      \<and> max_posts_per_persona_day s \<noteq> Some Cast_error
      \<and> cooldown_per_persona_hours s \<noteq> Some Cast_error)"

definition is_post_or_reply :: "ai_activity \<Rightarrow> bool" where
  "is_post_or_reply a = (act_action_type a = Post \<or> act_action_type a = Reply)"

fun max_list :: "int list \<Rightarrow> int option" where
  "max_list [] = None"
| "max_list (x # xs) = (case max_list xs of None \<Rightarrow> Some x | Some m \<Rightarrow> Some (max x m))"

text \<open>\<open>SELECT MAX(created_at) ... WHERE action_type IN ('post', 'reply')\<close>.\<close>

definition last_ai_time :: "ai_activity list \<Rightarrow> timestamptz option" where
  "last_ai_time acts = max_list (map act_created_at (filter is_post_or_reply acts))"

text \<open>
  \<open>v_hours_since_ai\<close>. \<open>numeric_div\<close> stands for the division of the database server in
  \<open>EXTRACT(EPOCH FROM (NOW() - v_last_ai_time)) / 3600\<close>: its result is not the exact
  quotient but a \<open>NUMERIC\<close> rounded to a scale that the server selects. It is a parameter
  of the evaluator.
\<close>

definition hours_since_ai :: "(rat \<Rightarrow> rat \<Rightarrow> rat) \<Rightarrow> timestamptz \<Rightarrow> ai_activity list \<Rightarrow> rat" where
  "hours_since_ai numeric_div now acts =
     (case last_ai_time acts of None \<Rightarrow> 999 | Some t \<Rightarrow> numeric_div (of_int (now - t)) 3600)"

text \<open>
  Human, approved posts created after the last AI activity, or after
  \<open>'1970-01-01'\<close>, the epoch, if there is none.
\<close>

definition posts_since_ai :: "ai_activity list \<Rightarrow> forum_post list \<Rightarrow> int" where
  "posts_since_ai acts posts =
     int (length (filter (\<lambda>r. fp_created_at r > (case last_ai_time acts of None \<Rightarrow> 0 | Some t \<Rightarrow> t)
                              \<and> fp_author_type r = Human \<and> fp_status r = Approved) posts))"

text \<open>AI posts and replies of the last 24 hours.\<close>

definition daily_ai_count :: "timestamptz \<Rightarrow> ai_activity list \<Rightarrow> int" where
  "daily_ai_count now acts =
     int (length (filter (\<lambda>a. is_post_or_reply a \<and> act_created_at a > now - 86400) acts))"

text \<open>
  The nested \<open>IF\<close>s that set \<open>v_should_trigger\<close>. A missing \<open>page_views_since_ai\<close> row
  makes the views comparison \<open>NULL\<close>, which does not satisfy the \<open>OR\<close> by itself.
  \<open>v_random\<close> is the value of the \<open>NUMERIC\<close> variable after \<open>v_random := random()\<close>.
\<close>

definition should_trigger ::
  "ai_settings \<Rightarrow> rat \<Rightarrow> int \<Rightarrow> int option \<Rightarrow> rat \<Rightarrow> bool" where
  "should_trigger s v_hours_since_ai v_posts_since_ai v_views_since_ai v_random =
     (v_hours_since_ai \<ge> setting_or (min_time_between_ai_hours s) 2
      \<and> (v_posts_since_ai \<ge> setting_or (posts_threshold s) 3
         \<or> (case v_views_since_ai of
               None \<Rightarrow> False
             | Some v \<Rightarrow> v \<ge> setting_or (page_views_threshold s) 20))
      \<and> v_random \<le> setting_or (random_chance s) (3 / 10))"

definition personas :: "string list" where
  "personas = [''Alex'', ''Maya'', ''Luna'', ''Sam'', ''Zen'', ''Chris'']"

text \<open>The sub-select that collects the personas off cooldown and under their daily cap.\<close>

definition available_personas :: "ai_settings \<Rightarrow> timestamptz \<Rightarrow> ai_activity list \<Rightarrow> string list" where
  "available_personas s now acts =
     filter (\<lambda>persona.
        \<not> list_ex (\<lambda>a. act_persona_name a = persona \<and> is_post_or_reply a
                       \<and> of_int (act_created_at a)
                           > of_int now - setting_or (cooldown_per_persona_hours s) 4 * 3600) acts
        \<and> int (length (filter (\<lambda>a. act_persona_name a = persona \<and> is_post_or_reply a
                                     \<and> act_created_at a > now - 86400) acts))
            < setting_or (max_posts_per_persona_day s) 3)
       personas"

text \<open>
  \<open>v_available_personas[1 + floor(random() * n)::int]\<close>: an index outside the array gives
  \<open>NULL\<close>. \<open>r\<close> is the value \<open>random()\<close> returns.
\<close>

definition choose_persona :: "string list \<Rightarrow> rat \<Rightarrow> string option" where
  "choose_persona available r =
     (let i = \<lfloor>r * of_nat (length available)\<rfloor>
      in if 0 \<le> i \<and> i < int (length available) then Some (available ! nat i) else None)"

text \<open>
  The \<open>WHERE\<close> clause of the target query. \<open>r.thread_id = fp.thread_id\<close> needs both thread
  ids to be non-null.
\<close>

definition target_candidate :: "timestamptz \<Rightarrow> forum_post list \<Rightarrow> forum_post \<Rightarrow> bool" where
  "target_candidate now posts fp =
     (fp_status fp = Approved \<and> fp_author_type fp = Human
      \<and> fp_created_at fp > now - 604800
      \<and> \<not> list_ex (\<lambda>r. fp_thread_id r \<noteq> None \<and> fp_thread_id r = fp_thread_id fp
                       \<and> fp_author_type r = Ai
                       \<and> fp_created_at r > fp_created_at fp) posts)"

text \<open>
  \<open>ORDER BY created_at DESC LIMIT 1\<close>: a row with the greatest \<open>created_at\<close>, the first
  such row of the scan.
\<close>

fun latest :: "forum_post list \<Rightarrow> forum_post option" where
  "latest [] = None"
| "latest (x # xs) =
     (case latest xs of
        None \<Rightarrow> Some x
      | Some y \<Rightarrow> if fp_created_at y > fp_created_at x then Some y else Some x)"

definition select_target :: "timestamptz \<Rightarrow> forum_post list \<Rightarrow> forum_post option" where
  "select_target now posts = latest (filter (target_candidate now posts) posts)"

text \<open>
  \<open>v_target_post IS NOT NULL\<close>, again the row-wise test on a \<open>RECORD\<close>: every column of
  the selected \<open>forum_posts\<close> row has to be non-null. The nullable columns are listed.
\<close>

definition post_is_not_null :: "forum_post \<Rightarrow> bool" where
  "post_is_not_null r =
     (fp_title r \<noteq> None \<and> fp_user_id r \<noteq> None \<and> fp_parent_id r \<noteq> None
      \<and> fp_thread_id r \<noteq> None \<and> fp_moderated_by r \<noteq> None \<and> fp_moderated_at r \<noteq> None
      \<and> fp_ai_model r \<noteq> None \<and> fp_ai_session_id r \<noteq> None)"

text \<open>The \<open>target_post\<close> and \<open>metrics\<close> objects of the result.\<close>

record target_post =
  tp_id :: int
  tp_title :: "string option"
  tp_content :: string
  tp_author :: string

record trigger_metrics =
  m_hours_since_ai :: rat
  m_posts_since_ai :: int
  m_views_since_ai :: "int option"

definition target_json :: "forum_post option \<Rightarrow> target_post option" where
  "target_json v_target_post =
     (case v_target_post of
        None \<Rightarrow> None
      | Some r \<Rightarrow>
          if post_is_not_null r
          then Some \<lparr>tp_id = fp_id r, tp_title = fp_title r, tp_content = fp_content r,
                     tp_author = fp_author_name r\<rparr>
          else None)"

text \<open>
  The outcomes of \<open>check_ai_trigger\<close>: \<open>triggered = false\<close> with a reason (and the
  metrics for \<open>conditions_not_met\<close>), \<open>triggered = true\<close> with persona, target and
  metrics, or an exception (a setting that does not cast, a \<open>NULL\<close> persona inserted into
  \<open>forum_ai_activity\<close>), which rolls the call back.
\<close>

datatype trigger_result =
    No_trigger string "trigger_metrics option"
  | Triggered string "target_post option" trigger_metrics
  | Trigger_exception

text \<open>
  \<open>check_ai_trigger()\<close> (004). \<open>r1\<close> is the value that the first call of \<open>random()\<close>
  leaves in \<open>v_random\<close>, \<open>r2\<close> the value of the second call; each is in \<open>[0, 1)\<close>.
\<close>

definition check_ai_trigger ::
  "(rat \<Rightarrow> rat \<Rightarrow> rat) \<Rightarrow> timestamptz \<Rightarrow> rat \<Rightarrow> rat \<Rightarrow> database \<Rightarrow>
   trigger_result \<times> database" where
  "check_ai_trigger numeric_div now r1 r2 db =
     (let db1 = db\<lparr>forum_metrics :=
                     metric_incr ''page_views_since_ai''
                       (metric_incr ''page_views'' (forum_metrics db))\<rparr>;
          s = forum_ai_settings db;
          acts = forum_ai_activity db
      in
      if trigger_enabled s \<noteq> Some ''true'' then (No_trigger ''disabled'' None, db1)
      else if \<not> settings_castable s then (Trigger_exception, db)
      else
        (let v_hours_since_ai = hours_since_ai numeric_div now acts;
             v_views_since_ai = forum_metrics db1 ''page_views_since_ai'';
             v_posts_since_ai = posts_since_ai acts (forum_posts db);
             metrics = \<lparr>m_hours_since_ai = v_hours_since_ai,
                        m_posts_since_ai = v_posts_since_ai,
                        m_views_since_ai = v_views_since_ai\<rparr>
         in
         if daily_ai_count now acts \<ge> setting_or (max_ai_posts_per_day s) 10
         then (No_trigger ''daily_limit'' None, db1)
         else if \<not> should_trigger s v_hours_since_ai v_posts_since_ai v_views_since_ai r1
         then (No_trigger ''conditions_not_met'' (Some metrics), db1)
         else
           (case available_personas s now acts of
              [] \<Rightarrow> (No_trigger ''no_available_personas'' None, db1)
            | persona # others \<Rightarrow>
                (case choose_persona (persona # others) r2 of
                   None \<Rightarrow> (Trigger_exception, db)
                 | Some v_chosen_persona \<Rightarrow>
                     (Triggered v_chosen_persona
                        (target_json (select_target now (forum_posts db))) metrics,
                      db1\<lparr>forum_ai_activity :=
                            acts @ [\<lparr>act_persona_name = v_chosen_persona,
                                     act_action_type = Trigger_check,
                                     act_post_id = None, act_created_at = now\<rparr>],
                          forum_metrics :=
                            metric_reset ''posts_since_ai''
                              (metric_reset ''page_views_since_ai'' (forum_metrics db1))\<rparr>)))))"

section \<open>Vote tables and score lists\<close>

text \<open>
  The constraints of \<open>forum_votes\<close>, \<open>UNIQUE(user_id, post_id)\<close> and the \<open>CHECK\<close> on
  \<open>vote_type\<close>. \<open>vote_delta\<close> is not taken from the code: it is the change of the
  aggregate as the specification of \<open>toggleVote\<close> words it (no vote: the sign; same
  sign: the sign removed; opposite sign: twice the sign), to be compared with what
  \<open>toggle_vote\<close> does. \<open>vote_keys\<close> and \<open>scores\<close> are the projections of the two tables
  that the statements about votes compare.
\<close>

definition votes_wellformed :: "forum_vote list \<Rightarrow> bool" where
  "votes_wellformed votes =
     (distinct (map (\<lambda>v. (fv_user_id v, fv_post_id v)) votes)
      \<and> list_all (\<lambda>v. fv_vote_type v = 1 \<or> fv_vote_type v = - 1) votes)"

definition vote_delta :: "forum_vote list \<Rightarrow> uuid \<Rightarrow> int \<Rightarrow> int \<Rightarrow> int" where
  "vote_delta votes v_user_id p_post_id sign =
     (case find (\<lambda>v. fv_user_id v = v_user_id \<and> fv_post_id v = p_post_id) votes of
        None \<Rightarrow> sign
      | Some existing \<Rightarrow> if fv_vote_type existing = sign then - sign else 2 * sign)"

definition vote_keys :: "forum_vote list \<Rightarrow> (uuid \<times> int \<times> int) list" where
  "vote_keys votes = map (\<lambda>v. (fv_user_id v, fv_post_id v, fv_vote_type v)) votes"

definition scores :: "forum_post list \<Rightarrow> (int \<times> int) list" where
  "scores posts = map (\<lambda>r. (fp_id r, fp_vote_score r)) posts"

definition add_score :: "int \<Rightarrow> int \<Rightarrow> (int \<times> int) list \<Rightarrow> (int \<times> int) list" where
  "add_score p d xs = map (\<lambda>(i, sc). (i, if i = p then sc + d else sc)) xs"

section \<open>Shapes of results\<close>

text \<open>
  A result is error-shaped when it carries \<open>error\<close> instead of an id and a status.
  \<open>shadow_selected\<close> is the test of \<open>ai_submit_post\<close> on the outcome of its ban lookup:
  banned, with \<open>ban_type = 'shadow'\<close>.
\<close>

definition is_submit_error :: "submit_result \<Rightarrow> bool" where
  "is_submit_error r = (case r of Submit_error msg \<Rightarrow> True | Submit_success i st msg \<Rightarrow> False)"

definition is_key_error :: "key_result \<Rightarrow> bool" where
  "is_key_error r =
     (case r of
        Key_error msg \<Rightarrow> True
      | Key_success i st author msg \<Rightarrow> False
      | Key_exception \<Rightarrow> False)"

definition shadow_selected :: "timestamptz \<Rightarrow> string option \<Rightarrow> forum_ban list \<Rightarrow> bool" where
  "shadow_selected now p_ai_session_id bans =
     (case check_ban_status now None None p_ai_session_id bans of
        Banned kind reason expires \<Rightarrow> kind = Shadow
      | Not_banned \<Rightarrow> False)"

text \<open>
  \<open>trim_whitespace\<close> is not taken from the code: it is trimming as the specification
  words it, of whitespace (space, tab, line feed, vertical tab, form feed, carriage
  return), to be compared with \<open>trim\<close>, the \<open>TRIM\<close> of the code, which removes spaces only.
\<close>

definition is_whitespace :: "char \<Rightarrow> bool" where
  "is_whitespace c =
     (c = CHR '' '' \<or> c = CHR 0x09 \<or> c = CHR 0x0A \<or> c = CHR 0x0B \<or> c = CHR 0x0C
      \<or> c = CHR 0x0D)"

definition trim_whitespace :: "string \<Rightarrow> string" where
  "trim_whitespace s = rev (dropWhile is_whitespace (rev (dropWhile is_whitespace s)))"

section \<open>Example databases\<close>

text \<open>Concrete tables on which the operations are run below. A guest post, as
  \<open>human_submit_post\<close> stores it, has no user, no moderator and no AI columns.\<close>

definition example_post ::
  "int \<Rightarrow> string option \<Rightarrow> string \<Rightarrow> author_type \<Rightarrow> int option \<Rightarrow> int option \<Rightarrow> post_status \<Rightarrow>
   timestamptz \<Rightarrow> forum_post" where
  "example_post i title content atype parent thread status created =
     \<lparr>fp_id = i, fp_title = title, fp_content = content, fp_user_id = None,
      fp_author_name = ''Guest'', fp_author_type = atype, fp_parent_id = parent,
      fp_thread_id = thread, fp_status = status, fp_moderated_by = None,
      fp_moderated_at = None, fp_created_at = created, fp_updated_at = created,
      fp_ai_model = None, fp_ai_session_id = None, fp_vote_score = 0\<rparr>"

definition empty_db :: database where
  "empty_db =
     \<lparr>forum_posts = [], forum_posts_id_seq = 1, profiles = [], forum_votes = [],
      forum_votes_id_seq = 1, forum_bans = [], forum_word_filters = [],
      forum_ai_activity = [], forum_metrics = (\<lambda>name. None),
      forum_ai_settings =
        \<lparr>trigger_enabled = None, min_time_between_ai_hours = None, posts_threshold = None,
         page_views_threshold = None, random_chance = None, max_ai_posts_per_day = None,
         max_posts_per_persona_day = None, cooldown_per_persona_hours = None\<rparr>,
      forum_ai_identities = []\<rparr>"

definition thread_db :: database where
  "thread_db =
     empty_db\<lparr>forum_posts :=
       [example_post 1 (Some ''Hello'') ''A first post for everyone'' Human None (Some 1) Approved 10,
        example_post 2 None ''A reply without a title of its own'' Human (Some 1) (Some 1) Approved 20,
        example_post 3 (Some ''Re: Hello'') ''A reply that has a title'' Human (Some 1) (Some 1) Pending 30,
        example_post 4 None ''A reply to the reply'' Human (Some 2) (Some 1) Approved 40,
        example_post 5 (Some ''Gone'') ''A post deleted earlier'' Human None (Some 5) Deleted 50],
       forum_posts_id_seq := 6,
       profiles := [\<lparr>pr_id = ''mod'', pr_is_admin = Some False, pr_is_moderator = Some True\<rparr>]\<rparr>"

text \<open>
  Instances of the server's functions for the examples, whose texts are ASCII: \<open>LOWER\<close>
  folding the letters A to Z; the hash of a key \<open>k\<close> without a backslash, written
  \<open>sha256:k\<close>, while a key with a backslash is refused (the server accepts a backslash
  only where it starts an escape sequence, which it does in none of the keys below); and
  the division rounded, half away from zero, to a given number of decimal places (20 is
  the scale PostgreSQL selects for 2400 / 3600).
\<close>

definition ascii_lower_char :: "char \<Rightarrow> char" where
  "ascii_lower_char c =
     (let n = (of_char c :: nat) in if 65 \<le> n \<and> n \<le> 90 then char_of (n + 32) else c)"

definition ascii_lower :: "string \<Rightarrow> string" where
  "ascii_lower s = map ascii_lower_char s"

definition example_key_hash :: "string \<Rightarrow> string option" where
  "example_key_hash k = (if CHR 0x5C \<in> set k then None else Some (''sha256:'' @ k))"

definition round_half_away :: "rat \<Rightarrow> int" where
  "round_half_away x = (if 0 \<le> x then \<lfloor>x + 1 / 2\<rfloor> else - \<lfloor>- x + 1 / 2\<rfloor>)"

definition numeric_div_scale :: "nat \<Rightarrow> rat \<Rightarrow> rat \<Rightarrow> rat" where
  "numeric_div_scale scale a b = of_int (round_half_away (a / b * 10 ^ scale)) / 10 ^ scale"

text \<open>
  Bans, word filters and a registered AI on top of the example thread. The three ban rows
  have every column set. Session \<open>s1\<close> has an older full ban and a newer shadow ban,
  session \<open>s2\<close> a shadow ban only. The identity \<open>s1\<close> is trusted and registered with the
  key \<open>fa_secret\<close>. \<open>ten_tabs\<close> is a content of ten tab characters, \<open>bad_key\<close> the key
  \<open>fa_\<close>, backslash, \<open>secret\<close>.
\<close>

definition ten_tabs :: string where
  "ten_tabs = [CHR 0x09, CHR 0x09, CHR 0x09, CHR 0x09, CHR 0x09,
               CHR 0x09, CHR 0x09, CHR 0x09, CHR 0x09, CHR 0x09]"

definition bad_key :: string where
  "bad_key = ''fa_'' @ [CHR 0x5C] @ ''secret''"

definition example_ban ::
  "int \<Rightarrow> uuid \<Rightarrow> string \<Rightarrow> string \<Rightarrow> ban_type \<Rightarrow> string \<Rightarrow> timestamptz \<Rightarrow> timestamptz \<Rightarrow> forum_ban" where
  "example_ban i user ip session kind reason banned_at expires =
     \<lparr>ban_id = i, ban_user_id = Some user, ban_ip_address = Some ip,
      ban_ai_session_id = Some session, ban_kind = kind, ban_reason = Some reason,
      ban_banned_by = Some ''admin'', ban_banned_at = Some banned_at,
      ban_expires_at = Some expires, ban_is_active = Some True\<rparr>"

definition gate_db :: database where
  "gate_db =
     thread_db\<lparr>forum_bans :=
       [example_ban 1 ''u1'' ''10.0.0.1'' ''s1'' Full ''spam'' 100 9000,
        example_ban 2 ''u1'' ''10.0.0.1'' ''s1'' Shadow ''quiet'' 200 9500,
        example_ban 3 ''u2'' ''10.0.0.2'' ''s2'' Shadow ''noise'' 300 9000],
       forum_word_filters :=
       [\<lparr>wf_word = ''shit'', wf_filter_type = Flag\<rparr>,
        \<lparr>wf_word = ''kill yourself'', wf_filter_type = Block\<rparr>,
        \<lparr>wf_word = ''kys'', wf_filter_type = Block\<rparr>],
       forum_ai_identities :=
       [\<lparr>idn_id = ''s1'', idn_api_key_hash = ''sha256:fa_secret'', idn_display_name = ''Echo'',
         idn_ai_model = Some ''model-x'', idn_post_count = 0, idn_is_trusted = Some True,
         idn_last_seen_at = Some 50, idn_last_post_at = None, idn_revoked_at = None\<rparr>]\<rparr>"

text \<open>
  Two votes on the first post of the example thread, one up and one down, so that every
  stored score (0) is the sum of its votes; and three calls: the first removes a vote,
  the second adds one, the third switches one.
\<close>

definition vote_db :: database where
  "vote_db =
     thread_db\<lparr>forum_votes :=
       [\<lparr>fv_id = 1, fv_user_id = ''alice'', fv_post_id = 1, fv_vote_type = 1, fv_created_at = 60\<rparr>,
        \<lparr>fv_id = 2, fv_user_id = ''bob'', fv_post_id = 1, fv_vote_type = - 1, fv_created_at = 70\<rparr>],
       forum_votes_id_seq := 3\<rparr>"

definition example_calls :: "vote_call list" where
  "example_calls =
     [\<lparr>vc_auth_uid = Some ''alice'', vc_now = 100, vc_post_id = 1, vc_vote_type = 1\<rparr>,
      \<lparr>vc_auth_uid = Some ''carol'', vc_now = 110, vc_post_id = 2, vc_vote_type = 1\<rparr>,
      \<lparr>vc_auth_uid = Some ''bob'', vc_now = 120, vc_post_id = 1, vc_vote_type = 1\<rparr>]"

text \<open>
  The settings the migration installs, and the example thread with 19 page views since
  the last AI activity and no AI activity yet; the same with a daily cap of 1 and one AI
  reply 100 seconds before time 1000.
\<close>

definition default_settings :: ai_settings where
  "default_settings =
     \<lparr>trigger_enabled = Some ''true'',
      min_time_between_ai_hours = Some (Cast_ok 2),
      posts_threshold = Some (Cast_ok 3),
      page_views_threshold = Some (Cast_ok 20),
      random_chance = Some (Cast_ok (3 / 10)),
      max_ai_posts_per_day = Some (Cast_ok 10),
      max_posts_per_persona_day = Some (Cast_ok 3),
      cooldown_per_persona_hours = Some (Cast_ok 4)\<rparr>"

definition trigger_db :: database where
  "trigger_db =
     thread_db\<lparr>forum_ai_settings := default_settings,
       forum_metrics := [''page_views'' \<mapsto> 119, ''page_views_since_ai'' \<mapsto> 19,
                         ''posts_since_ai'' \<mapsto> 3, ''last_ai_post_time'' \<mapsto> 0]\<rparr>"

definition capped_db :: database where
  "capped_db =
     trigger_db\<lparr>forum_ai_settings := default_settings\<lparr>max_ai_posts_per_day := Some (Cast_ok 1)\<rparr>,
       forum_ai_activity :=
         [\<lparr>act_persona_name = ''Maya'', act_action_type = Reply, act_post_id = Some 3,
           act_created_at = 900\<rparr>]\<rparr>"

text \<open>
  The capped database with a \<open>random_chance\<close> whose text is not a number; and the example
  thread with one AI reply 2400 seconds before time 3000 and a minimum of
  0.66666666666666666667 hours between AI posts.
\<close>

definition uncastable_db :: database where
  "uncastable_db =
     capped_db\<lparr>forum_ai_settings :=
       default_settings\<lparr>max_ai_posts_per_day := Some (Cast_ok 1),
                        random_chance := Some Cast_error\<rparr>\<rparr>"

definition boundary_db :: database where
  "boundary_db =
     trigger_db\<lparr>forum_ai_settings :=
       default_settings\<lparr>min_time_between_ai_hours :=
         Some (Cast_ok (66666666666666666667 / 100000000000000000000))\<rparr>,
       forum_ai_activity :=
         [\<lparr>act_persona_name = ''Maya'', act_action_type = Reply, act_post_id = Some 3,
           act_created_at = 600\<rparr>]\<rparr>"

text \<open>A post in which no column is \<open>NULL\<close>.\<close>

definition complete_post :: forum_post where
  "complete_post =
     \<lparr>fp_id = 6, fp_title = Some ''Re: Hello'', fp_content = ''A reply by a member, approved by hand'',
      fp_user_id = Some ''alice'', fp_author_name = ''Alice'', fp_author_type = Human,
      fp_parent_id = Some 1, fp_thread_id = Some 1, fp_status = Approved,
      fp_moderated_by = Some ''mod'', fp_moderated_at = Some 70, fp_created_at = 60,
      fp_updated_at = 70, fp_ai_model = Some ''none'', fp_ai_session_id = Some ''web'',
      fp_vote_score = 0\<rparr>"

section \<open>Properties of updates on \<open>forum_posts\<close>\<close>

lemma handle_parent_deletion_status:
  "map fp_status (handle_parent_deletion now old new ps) = map fp_status ps"
  by (simp add: handle_parent_deletion_def update_forum_post_timestamp_def promote_def)

lemma handle_parent_deletion_noop:
  "fp_status new = fp_status old \<Longrightarrow> handle_parent_deletion now old new ps = ps"
  by (auto simp add: handle_parent_deletion_def)

lemma fold_triggers_status:
  "map fp_status
     (fold (\<lambda>old ps. let new = update_forum_post_timestamp now (upd old)
                      in if fp_status new = Deleted then handle_parent_deletion now old new ps else ps)
           olds ps) = map fp_status ps"
  by (induction olds arbitrary: ps) (simp_all add: Let_def handle_parent_deletion_status)

lemma update_forum_posts_status:
  "map fp_status (update_forum_posts now wh upd posts) =
   map (\<lambda>r. if wh r then fp_status (upd r) else fp_status r) posts"
  unfolding update_forum_posts_def fold_triggers_status
  by (simp add: update_forum_post_timestamp_def)

lemma fold_triggers_noop:
  "\<forall>r. fp_status (upd r) = fp_status r \<Longrightarrow>
   fold (\<lambda>old ps. let new = update_forum_post_timestamp now (upd old)
                      in if fp_status new = Deleted then handle_parent_deletion now old new ps else ps)
           olds ps = ps"
  by (induction olds arbitrary: ps)
     (simp_all add: Let_def handle_parent_deletion_noop update_forum_post_timestamp_def)

lemma update_forum_posts_keep_status:
  "\<forall>r. fp_status (upd r) = fp_status r \<Longrightarrow>
   update_forum_posts now wh upd posts =
   map (\<lambda>r. if wh r then update_forum_post_timestamp now (upd r) else r) posts"
  unfolding update_forum_posts_def by (simp add: fold_triggers_noop)

lemma filter_key_single:
  "distinct (map f xs) \<Longrightarrow> x \<in> set xs \<Longrightarrow> filter (\<lambda>r. f r = f x) xs = [x]"
proof (induction xs)
  case Nil then show ?case by simp
next
  case (Cons a xs)
  show ?case
  proof (cases "a = x")
    case True
    with Cons.prems have "\<forall>r\<in>set xs. f r \<noteq> f x"
      by (metis distinct.simps(2) image_eqI list.simps(9) list.set_map)
    then have "filter (\<lambda>r. f r = f x) xs = []" by (simp add: filter_empty_conv)
    with True show ?thesis by simp
  next
    case False
    with Cons.prems have "x \<in> set xs" "f a \<noteq> f x" by auto
    with Cons show ?thesis by simp
  qed
qed

text \<open>A delete of a live post: the statement's update, then one run of the promotion.\<close>

lemma update_forum_posts_delete:
  assumes "distinct (map fp_id posts)" and "t \<in> set posts" and "fp_status t \<noteq> Deleted"
    and "fp_status (upd t) = Deleted" and "fp_id t = p"
  shows "update_forum_posts now (\<lambda>r. fp_id r = p) upd posts =
         map (\<lambda>r. if fp_parent_id r = Some p
                   then update_forum_post_timestamp now (promote r) else r)
           (map (\<lambda>r. if fp_id r = p then update_forum_post_timestamp now (upd r) else r) posts)"
proof -
  have "filter (\<lambda>r. fp_id r = fp_id t) posts = [t]"
    using assms(1,2) by (rule filter_key_single)
  then have one: "filter (\<lambda>r. fp_id r = p) posts = [t]"
    using assms(5) by simp
  show ?thesis
    unfolding update_forum_posts_def one
    using assms(3,4,5)
    by (simp add: handle_parent_deletion_def update_forum_post_timestamp_def)
qed

section \<open>Deleting a post promotes its direct children\<close>

text \<open>
  Claim C4. A moderator deletes the post \<open>p\<close>, which is in the table (ids are the primary
  key) and not yet deleted. Afterwards the table has the same rows in the same places;
  \<open>p\<close> is deleted; every row whose parent was \<open>p\<close> has no parent, is its own thread and
  has a title, its old one or \<open>[Thread]\<close>, the first 50 characters of its content and
  \<open>...\<close>; every other row, the children of the children among them, keeps its parent,
  thread and title; no row has \<open>p\<close> as parent; and the rows that became roots are as many
  as \<open>p\<close> had direct children.
\<close>

theorem delete_promotes_children:
  assumes priv: "is_mod (profiles db) u"
    and pk: "distinct (map fp_id (forum_posts db))"
    and live: "t \<in> set (forum_posts db)" "fp_id t = p" "fp_status t \<noteq> Deleted"
    and after: "posts' = forum_posts (snd (moderate_forum_post (Some u) now p ''delete'' db))"
  shows "length posts' = length (forum_posts db)
    \<and> (\<forall>i < length (forum_posts db).
          fp_id (posts' ! i) = fp_id (forum_posts db ! i)
          \<and> (fp_id (forum_posts db ! i) = p \<longrightarrow> fp_status (posts' ! i) = Deleted)
          \<and> (fp_parent_id (forum_posts db ! i) = Some p \<longrightarrow>
               fp_parent_id (posts' ! i) = None
               \<and> fp_thread_id (posts' ! i) = Some (fp_id (posts' ! i))
               \<and> fp_title (posts' ! i) =
                   (case fp_title (forum_posts db ! i) of
                      None \<Rightarrow> Some (''[Thread] '' @ take 50 (fp_content (forum_posts db ! i)) @ ''...'')
                    | Some title \<Rightarrow> Some title))
          \<and> (fp_parent_id (forum_posts db ! i) \<noteq> Some p \<longrightarrow>
               fp_parent_id (posts' ! i) = fp_parent_id (forum_posts db ! i)
               \<and> fp_thread_id (posts' ! i) = fp_thread_id (forum_posts db ! i)
               \<and> fp_title (posts' ! i) = fp_title (forum_posts db ! i)))
    \<and> (\<forall>r \<in> set posts'. fp_parent_id r \<noteq> Some p)
    \<and> length (filter (\<lambda>(r, r'). fp_parent_id r \<noteq> None \<and> fp_parent_id r' = None)
                (zip (forum_posts db) posts'))
        = length (filter (\<lambda>r. fp_parent_id r = Some p) (forum_posts db))"
proof -
  let ?U = "\<lambda>r. r\<lparr>fp_status := moderated_status ''delete'' (fp_status r),
                   fp_moderated_by := Some u, fp_moderated_at := Some now\<rparr>"
  let ?f = "\<lambda>r. if fp_id r = p then update_forum_post_timestamp now (?U r) else r"
  let ?g = "\<lambda>r. if fp_parent_id r = Some p
                 then update_forum_post_timestamp now (promote r) else r"
  have del: "fp_status (?U t) = Deleted" by (simp add: moderated_status_def)
  have "update_forum_posts now (\<lambda>r. fp_id r = p) ?U (forum_posts db) =
        map ?g (map ?f (forum_posts db))"
    using pk live(1) live(3) del live(2) by (rule update_forum_posts_delete)
  then have posts': "posts' = map (\<lambda>r. ?g (?f r)) (forum_posts db)"
    using priv after by (simp add: moderate_forum_post_def)
  have len: "length posts' = length (forum_posts db)" by (simp add: posts')
  have rows: "\<forall>i < length (forum_posts db).
          fp_id (posts' ! i) = fp_id (forum_posts db ! i)
          \<and> (fp_id (forum_posts db ! i) = p \<longrightarrow> fp_status (posts' ! i) = Deleted)
          \<and> (fp_parent_id (forum_posts db ! i) = Some p \<longrightarrow>
               fp_parent_id (posts' ! i) = None
               \<and> fp_thread_id (posts' ! i) = Some (fp_id (posts' ! i))
               \<and> fp_title (posts' ! i) =
                   (case fp_title (forum_posts db ! i) of
                      None \<Rightarrow> Some (''[Thread] '' @ take 50 (fp_content (forum_posts db ! i)) @ ''...'')
                    | Some title \<Rightarrow> Some title))
          \<and> (fp_parent_id (forum_posts db ! i) \<noteq> Some p \<longrightarrow>
               fp_parent_id (posts' ! i) = fp_parent_id (forum_posts db ! i)
               \<and> fp_thread_id (posts' ! i) = fp_thread_id (forum_posts db ! i)
               \<and> fp_title (posts' ! i) = fp_title (forum_posts db ! i))"
    by (simp add: posts' update_forum_post_timestamp_def promote_def moderated_status_def
        split: option.splits)
  have none: "\<forall>r \<in> set posts'. fp_parent_id r \<noteq> Some p"
    by (auto simp add: posts' update_forum_post_timestamp_def promote_def)
  have "zip (forum_posts db) posts' = map (\<lambda>r. (r, ?g (?f r))) (forum_posts db)"
    unfolding posts' by (simp add: zip_map2 zip_same_conv_map)
  then have "filter (\<lambda>(r, r'). fp_parent_id r \<noteq> None \<and> fp_parent_id r' = None)
                (zip (forum_posts db) posts')
             = map (\<lambda>r. (r, ?g (?f r)))
                 (filter (\<lambda>r. fp_parent_id r \<noteq> None \<and> fp_parent_id (?g (?f r)) = None)
                    (forum_posts db))"
    by (simp add: filter_map comp_def)
  moreover have "filter (\<lambda>r. fp_parent_id r \<noteq> None \<and> fp_parent_id (?g (?f r)) = None)
                    (forum_posts db)
                 = filter (\<lambda>r. fp_parent_id r = Some p) (forum_posts db)"
    by (rule filter_cong) (auto simp add: update_forum_post_timestamp_def promote_def)
  ultimately have count: "length (filter (\<lambda>(r, r'). fp_parent_id r \<noteq> None \<and> fp_parent_id r' = None)
                (zip (forum_posts db) posts'))
        = length (filter (\<lambda>r. fp_parent_id r = Some p) (forum_posts db))"
    by simp
  from len rows none count show ?thesis by blast
qed

theorem delete_promotes_children_witness:
  "is_mod (profiles thread_db) ''mod''
   \<and> distinct (map fp_id (forum_posts thread_db))
   \<and> fp_status (forum_posts thread_db ! 0) = Approved
   \<and> map (\<lambda>r. (fp_id r, fp_parent_id r, fp_thread_id r))
       (forum_posts (snd (moderate_forum_post (Some ''mod'') 100 1 ''delete'' thread_db)))
     = [(1, None, Some 1), (2, None, Some 2), (3, None, Some 3), (4, Some 2, Some 1),
        (5, None, Some 5)]
   \<and> map fp_title
       (forum_posts (snd (moderate_forum_post (Some ''mod'') 100 1 ''delete'' thread_db)))
     = [Some ''Hello'', Some ''[Thread] A reply without a title of its own...'',
        Some ''Re: Hello'', None, Some ''Gone'']"
proof -
  have h1: "is_mod (profiles thread_db) ''mod''"
    by (simp add: thread_db_def empty_db_def is_mod_def)
  have h2: "distinct (map fp_id (forum_posts thread_db))"
    by (simp add: thread_db_def empty_db_def example_post_def)
  have h3: "forum_posts thread_db ! 0 \<in> set (forum_posts thread_db)"
    by (simp add: thread_db_def empty_db_def)
  have h4: "fp_id (forum_posts thread_db ! 0) = 1"
    by (simp add: thread_db_def empty_db_def example_post_def)
  have h5: "fp_status (forum_posts thread_db ! 0) \<noteq> Deleted"
    by (simp add: thread_db_def empty_db_def example_post_def)
  note inst = delete_promotes_children [OF h1 h2 h3 h4 h5 refl, of 100]
  show ?thesis
    using inst h1 h2
    by (simp add: thread_db_def empty_db_def is_mod_def moderate_forum_post_def
        update_forum_posts_def update_forum_post_timestamp_def handle_parent_deletion_def
        moderated_status_def example_post_def promote_def)
qed

section \<open>Moderation with an unrecognised action\<close>

text \<open>
  Claim C10. A moderator or admin calls \<open>moderate_forum_post\<close> with an action other than
  \<open>approve\<close>, \<open>reject\<close> and \<open>delete\<close>. The call returns success with the action it
  was given, and the only change to the database is on the post with the given id: its
  \<open>moderated_by\<close> is the caller, its \<open>moderated_at\<close> (and \<open>updated_at\<close>) the time of the
  call; its status, like every other column and every other row, is what it was.
\<close>

theorem moderate_unknown_action:
  assumes "is_mod (profiles db) u"
    and "p_action \<noteq> ''approve''" "p_action \<noteq> ''reject''" "p_action \<noteq> ''delete''"
  shows "moderate_forum_post (Some u) now p p_action db =
     (Moderate_success p_action,
      db\<lparr>forum_posts :=
           map (\<lambda>r. if fp_id r = p
                     then r\<lparr>fp_moderated_by := Some u, fp_moderated_at := Some now,
                            fp_updated_at := now\<rparr>
                     else r) (forum_posts db)\<rparr>)"
proof -
  let ?U = "\<lambda>r. r\<lparr>fp_status := moderated_status p_action (fp_status r),
                   fp_moderated_by := Some u, fp_moderated_at := Some now\<rparr>"
  have same: "moderated_status p_action s = s" for s
    using assms(2-4) by (simp add: moderated_status_def)
  have "update_forum_posts now (\<lambda>r. fp_id r = p) ?U (forum_posts db) =
        map (\<lambda>r. if fp_id r = p then update_forum_post_timestamp now (?U r) else r)
          (forum_posts db)"
    by (rule update_forum_posts_keep_status) (simp add: same)
  then show ?thesis
    using assms(1)
    by (simp add: moderate_forum_post_def update_forum_post_timestamp_def same)
qed

theorem moderate_unknown_action_witness:
  "is_mod (profiles thread_db) ''mod''
   \<and> fst (moderate_forum_post (Some ''mod'') 100 3 ''archive'' thread_db)
       = Moderate_success ''archive''
   \<and> map (\<lambda>r. (fp_id r, fp_status r, fp_moderated_by r, fp_moderated_at r))
       (forum_posts (snd (moderate_forum_post (Some ''mod'') 100 3 ''archive'' thread_db)))
     = [(1, Approved, None, None), (2, Approved, None, None),
        (3, Pending, Some ''mod'', Some 100), (4, Approved, None, None),
        (5, Deleted, None, None)]"
proof -
  have h: "is_mod (profiles thread_db) ''mod''"
    by (simp add: thread_db_def empty_db_def is_mod_def)
  have "moderate_forum_post (Some ''mod'') 100 3 ''archive'' thread_db =
     (Moderate_success ''archive'',
      thread_db\<lparr>forum_posts :=
           map (\<lambda>r. if fp_id r = 3
                     then r\<lparr>fp_moderated_by := Some ''mod'', fp_moderated_at := Some 100,
                            fp_updated_at := 100\<rparr>
                     else r) (forum_posts thread_db)\<rparr>)"
    by (rule moderate_unknown_action [OF h]) simp_all
  then show ?thesis
    using h by (simp add: thread_db_def empty_db_def example_post_def)
qed

section \<open>Status transitions of moderation\<close>

text \<open>
  Claim C3 says that moderation only moves a post from pending to approved or rejected,
  or from any live status to deleted, and never out of deleted. The function does not
  look at the current status: on the example thread a moderator moves the deleted post 5
  to approved and the approved post 1 to rejected.
\<close>

theorem moderate_leaves_deleted_counterexample:
  "map (\<lambda>r. (fp_id r, fp_status r)) (forum_posts thread_db)
     = [(1, Approved), (2, Approved), (3, Pending), (4, Approved), (5, Deleted)]
   \<and> map (\<lambda>r. (fp_id r, fp_status r))
       (forum_posts (snd (moderate_forum_post (Some ''mod'') 100 5 ''approve'' thread_db)))
     = [(1, Approved), (2, Approved), (3, Pending), (4, Approved), (5, Approved)]
   \<and> map (\<lambda>r. (fp_id r, fp_status r))
       (forum_posts (snd (moderate_forum_post (Some ''mod'') 100 1 ''reject'' thread_db)))
     = [(1, Rejected), (2, Approved), (3, Pending), (4, Approved), (5, Deleted)]"
  by (simp add: thread_db_def empty_db_def is_mod_def moderate_forum_post_def
      update_forum_posts_def update_forum_post_timestamp_def handle_parent_deletion_def
      moderated_status_def example_post_def)

text \<open>
  Claim C3 as amended. After a call of \<open>moderate_forum_post\<close> by a moderator or admin the
  post with the given id is approved for \<open>approve\<close>, rejected for \<open>reject\<close> and deleted
  for \<open>delete\<close>, whatever its status was, and keeps its status for any other action; no
  other post changes status, and a call by anyone else changes no status at all.
\<close>

theorem moderate_status_by_action:
  "map fp_status (forum_posts (snd (moderate_forum_post auth_uid now p p_action db))) =
   map (\<lambda>r. if (case auth_uid of None \<Rightarrow> False | Some u \<Rightarrow> is_mod (profiles db) u)
                \<and> fp_id r = p
             then (if p_action = ''approve'' then Approved
                   else if p_action = ''reject'' then Rejected
                   else if p_action = ''delete'' then Deleted
                   else fp_status r)
             else fp_status r) (forum_posts db)"
  by (simp add: moderate_forum_post_def update_forum_posts_status moderated_status_def
      split: option.splits)

theorem moderate_status_by_action_witness:
  "map fp_status
     (forum_posts (snd (moderate_forum_post (Some ''mod'') 100 5 ''reject'' thread_db)))
     = [Approved, Approved, Pending, Approved, Rejected]
   \<and> map fp_status
     (forum_posts (snd (moderate_forum_post (Some ''guest'') 100 3 ''approve'' thread_db)))
     = [Approved, Approved, Pending, Approved, Deleted]"
  using moderate_status_by_action [of "Some ''mod''" 100 5 "''reject''" thread_db]
    moderate_status_by_action [of "Some ''guest''" 100 3 "''approve''" thread_db]
  by (simp add: thread_db_def empty_db_def is_mod_def example_post_def)

section \<open>Which ban row the lookup reports\<close>

lemma find_first_match:
  "\<forall>x \<in> set before. \<not> P x \<Longrightarrow> P b \<Longrightarrow> find P (before @ b # rest) = Some b"
  by (induction before) simp_all

text \<open>
  Claim C9 says that with several matching rows the lookup reports the most recently
  created one. Session \<open>s1\<close> matches the full ban of time 100 and the shadow ban of
  time 200; the lookup reports the full ban, the older row.
\<close>

theorem check_ban_status_reports_latest_counterexample:
  "map (\<lambda>b. (ban_id b, ban_banned_at b, ban_kind b,
              ban_matches 1000 None None (Some ''s1'') b)) (forum_bans gate_db)
     = [(1, Some 100, Full, True), (2, Some 200, Shadow, True), (3, Some 300, Shadow, False)]
   \<and> check_ban_status 1000 None None (Some ''s1'') (forum_bans gate_db)
     = Banned Full (Some ''spam'') (Some 9000)"
  by (simp add: gate_db_def thread_db_def empty_db_def example_ban_def check_ban_status_def
      ban_matches_def ban_is_not_null_def)

text \<open>
  A selected row with a \<open>NULL\<close> column, such as a ban that names a session but no user,
  fails the row-wise test, and the lookup answers that there is no ban.
\<close>

lemma check_ban_status_null_column:
  "find (ban_matches now p_user_id p_ip_address p_ai_session_id) bans = Some b \<Longrightarrow>
   \<not> ban_is_not_null b \<Longrightarrow>
   check_ban_status now p_user_id p_ip_address p_ai_session_id bans = Not_banned"
  by (simp add: check_ban_status_def)

text \<open>
  Claim C9 as amended. The lookup reports the kind, reason and expiry of the first row in
  the scan of \<open>forum_bans\<close> that is active, not expired and matches one of the supplied
  identifiers, however many rows match after it and whenever they were created, when that
  row has no \<open>NULL\<close> column.
\<close>

theorem check_ban_status_first_match:
  assumes "bans = before @ b # rest"
    and "\<forall>x \<in> set before. \<not> ban_matches now p_user_id p_ip_address p_ai_session_id x"
    and "ban_matches now p_user_id p_ip_address p_ai_session_id b"
    and "ban_is_not_null b"
  shows "check_ban_status now p_user_id p_ip_address p_ai_session_id bans =
         Banned (ban_kind b) (ban_reason b) (ban_expires_at b)"
  using assms(4) find_first_match [OF assms(2) assms(3), of rest]
  by (simp add: check_ban_status_def assms(1))

theorem check_ban_status_first_match_witness:
  "ban_matches 1000 None None (Some ''s1'')
     (example_ban 1 ''u1'' ''10.0.0.1'' ''s1'' Full ''spam'' 100 9000)
   \<and> ban_matches 1000 None None (Some ''s1'')
     (example_ban 2 ''u1'' ''10.0.0.1'' ''s1'' Shadow ''quiet'' 200 9500)
   \<and> ban_is_not_null (example_ban 1 ''u1'' ''10.0.0.1'' ''s1'' Full ''spam'' 100 9000)
   \<and> check_ban_status 1000 None None (Some ''s1'')
         [example_ban 3 ''u2'' ''10.0.0.2'' ''s2'' Shadow ''noise'' 300 9000,
          example_ban 1 ''u1'' ''10.0.0.1'' ''s1'' Full ''spam'' 100 9000,
          example_ban 2 ''u1'' ''10.0.0.1'' ''s1'' Shadow ''quiet'' 200 9500]
       = Banned Full (Some ''spam'') (Some 9000)"
proof -
  let ?b = "example_ban 1 ''u1'' ''10.0.0.1'' ''s1'' Full ''spam'' 100 9000"
  let ?before = "[example_ban 3 ''u2'' ''10.0.0.2'' ''s2'' Shadow ''noise'' 300 9000]"
  let ?rest = "[example_ban 2 ''u1'' ''10.0.0.1'' ''s1'' Shadow ''quiet'' 200 9500]"
  have h1: "?before @ [?b] @ ?rest = ?before @ ?b # ?rest" by simp
  have h2: "\<forall>x \<in> set ?before. \<not> ban_matches 1000 None None (Some ''s1'') x"
    by (simp add: ban_matches_def example_ban_def)
  have h3: "ban_matches 1000 None None (Some ''s1'') ?b"
    by (simp add: ban_matches_def example_ban_def)
  have h4: "ban_is_not_null ?b" by (simp add: ban_is_not_null_def example_ban_def)
  have h5: "ban_matches 1000 None None (Some ''s1'') (hd ?rest)"
    by (simp add: ban_matches_def example_ban_def)
  from check_ban_status_first_match [OF h1 h2 h3 h4] h3 h4 h5 show ?thesis
    by (simp add: example_ban_def)
qed

section \<open>Shadow bans\<close>

text \<open>
  Claim C5 says that a submitter with a matching active shadow ban always gets a
  success-shaped answer. Session \<open>s1\<close> has such a ban, but the lookup selects its full
  ban, and \<open>ai_submit_post\<close> answers with an error (and stores nothing).
\<close>

theorem shadow_ban_fakes_success_counterexample:
  "ban_matches 1000 None None (Some ''s1'') (forum_bans gate_db ! 1)
   \<and> ban_kind (forum_bans gate_db ! 1) = Shadow
   \<and> ai_submit_post ascii_lower 1000 (Some ''A long enough reply'') None (Some 1) ''Bot'' None
        (Some ''s1'') gate_db
     = (Submit_error ''You are not allowed to post.'', gate_db)"
  by (simp add: gate_db_def thread_db_def empty_db_def example_ban_def check_ban_status_def
      ban_matches_def ban_is_not_null_def ai_submit_post_def)

text \<open>
  Claim C5 as amended. When the ban row that the lookup of \<open>ai_submit_post\<close> selects for
  the supplied session (the first active, unexpired, matching row of the scan) is a shadow
  ban with no \<open>NULL\<close> column, the call returns success with id 0 and status pending and
  leaves the whole database as it was: no post row is inserted and no thread changes.
\<close>

theorem shadow_ban_fakes_success:
  assumes "forum_bans db = before @ b # rest"
    and "\<forall>x \<in> set before. \<not> ban_matches now None None p_ai_session_id x"
    and "ban_matches now None None p_ai_session_id b"
    and "ban_is_not_null b"
    and "ban_kind b = Shadow"
  shows "ai_submit_post lower now p_content p_title p_parent_id p_author_name p_ai_model
           p_ai_session_id db
         = (Submit_success 0 Pending (Some ''Post submitted for moderation.''), db)"
proof -
  have "check_ban_status now None None p_ai_session_id (forum_bans db) =
        Banned Shadow (ban_reason b) (ban_expires_at b)"
    using find_first_match [OF assms(2) assms(3), of rest] assms(4,5)
    by (simp add: check_ban_status_def assms(1))
  then show ?thesis by (simp add: ai_submit_post_def)
qed

theorem shadow_ban_fakes_success_witness:
  "ban_matches 1000 None None (Some ''s2'') (example_ban 3 ''u2'' ''10.0.0.2'' ''s2'' Shadow ''noise'' 300 9000)
   \<and> ban_is_not_null (example_ban 3 ''u2'' ''10.0.0.2'' ''s2'' Shadow ''noise'' 300 9000)
   \<and> ai_submit_post ascii_lower 1000 (Some ''A long enough reply'') None (Some 1) ''Bot'' None
        (Some ''s2'') gate_db
       = (Submit_success 0 Pending (Some ''Post submitted for moderation.''), gate_db)"
proof -
  let ?b = "example_ban 3 ''u2'' ''10.0.0.2'' ''s2'' Shadow ''noise'' 300 9000"
  let ?before = "[example_ban 1 ''u1'' ''10.0.0.1'' ''s1'' Full ''spam'' 100 9000,
                  example_ban 2 ''u1'' ''10.0.0.1'' ''s1'' Shadow ''quiet'' 200 9500]"
  have h1: "forum_bans gate_db = ?before @ ?b # []"
    by (simp add: gate_db_def thread_db_def empty_db_def)
  have h2: "\<forall>x \<in> set ?before. \<not> ban_matches 1000 None None (Some ''s2'') x"
    by (simp add: ban_matches_def example_ban_def)
  have h3: "ban_matches 1000 None None (Some ''s2'') ?b"
    by (simp add: ban_matches_def example_ban_def)
  have h4: "ban_is_not_null ?b" by (simp add: ban_is_not_null_def example_ban_def)
  have h5: "ban_kind ?b = Shadow" by (simp add: example_ban_def)
  from shadow_ban_fakes_success [OF h1 h2 h3 h4 h5] h3 h4 show ?thesis by simp
qed

section \<open>Content shorter than ten characters\<close>

text \<open>
  Claim C6 says that a submission with fewer than 10 characters after trimming whitespace
  always returns an error-shaped result and stores nothing. It fails in three ways.
  \<open>TRIM\<close> removes spaces only: a content of ten tab characters has no character left
  after trimming whitespace, but ten for the code, and \<open>human_submit_post\<close> stores it as
  an approved post, as \<open>ai_submit_with_key\<close> does. \<open>ai_submit_post\<close> looks up the ban
  first: for the shadow-banned session \<open>s2\<close> the two characters \<open>hi\<close> get the fabricated
  success. And \<open>ai_submit_with_key\<close> casts the key first: for a key that the cast
  refuses the call raises an exception, which is not a result at all.
\<close>

theorem short_content_fails_counterexample:
  "length (trim_whitespace ten_tabs) = 0
   \<and> length (trim ten_tabs) = 10
   \<and> fst (human_submit_post 1000 (Some ten_tabs) None None ''Guest'' gate_db)
     = Submit_success 6 Approved None
   \<and> map (\<lambda>r. (fp_id r, fp_content r, fp_status r))
       (forum_posts (snd (human_submit_post 1000 (Some ten_tabs) None None ''Guest'' gate_db)))
     = map (\<lambda>r. (fp_id r, fp_content r, fp_status r)) (forum_posts gate_db)
       @ [(6, ten_tabs, Approved)]
   \<and> fst (ai_submit_with_key example_key_hash 1000 (Some ''fa_secret'') (Some ten_tabs)
            None None gate_db)
     = Key_success 6 Approved ''Echo'' ''Post published!''
   \<and> length (trim_whitespace ''hi'') = 2
   \<and> ai_submit_post ascii_lower 1000 (Some ''hi'') None None ''Bot'' None (Some ''s2'') gate_db
     = (Submit_success 0 Pending (Some ''Post submitted for moderation.''), gate_db)
   \<and> ai_submit_with_key example_key_hash 1000 (Some bad_key) (Some ''hi'') None None gate_db
     = (Key_exception, gate_db)"
proof -
  have w: "length (trim_whitespace ten_tabs) = 0" "length (trim_whitespace ''hi'') = 2"
    by (simp_all add: trim_whitespace_def is_whitespace_def ten_tabs_def)
  have t: "trim ten_tabs = ten_tabs"
    by (simp add: trim_def ten_tabs_def)
  have l: "length ten_tabs = 10" by (simp add: ten_tabs_def)
  have long: "\<not> content_too_short (Some ten_tabs)"
    by (simp add: content_too_short_def t l)
  have h: "human_submit_post 1000 (Some ten_tabs) None None ''Guest'' gate_db
     = (case insert_post 1000 None ten_tabs ''Guest'' Human None None Approved None None
               gate_db of (i, d) \<Rightarrow> (Submit_success i Approved None, d))"
    using long by (simp add: human_submit_post_def)
  have h1: "fst (human_submit_post 1000 (Some ten_tabs) None None ''Guest'' gate_db)
     = Submit_success 6 Approved None"
    unfolding h
    by (simp add: insert_post_def Let_def gate_db_def thread_db_def empty_db_def)
  have h2: "map (\<lambda>r. (fp_id r, fp_content r, fp_status r))
       (forum_posts (snd (human_submit_post 1000 (Some ten_tabs) None None ''Guest'' gate_db)))
     = map (\<lambda>r. (fp_id r, fp_content r, fp_status r)) (forum_posts gate_db)
       @ [(6, ten_tabs, Approved)]"
    unfolding h
    by (simp add: insert_post_def Let_def gate_db_def thread_db_def empty_db_def
        update_forum_posts_keep_status update_forum_post_timestamp_def example_post_def)
  have k: "fst (ai_submit_with_key example_key_hash 1000 (Some ''fa_secret'') (Some ten_tabs)
            None None gate_db)
     = Key_success 6 Approved ''Echo'' ''Post published!''"
    using long
    by (simp add: ai_submit_with_key_def key_cast_fails_def example_key_hash_def insert_post_def
        Let_def gate_db_def thread_db_def empty_db_def)
  have s: "ai_submit_post ascii_lower 1000 (Some ''hi'') None None ''Bot'' None (Some ''s2'') gate_db
     = (Submit_success 0 Pending (Some ''Post submitted for moderation.''), gate_db)"
    by (simp add: gate_db_def thread_db_def empty_db_def example_ban_def check_ban_status_def
        ban_matches_def ban_is_not_null_def ai_submit_post_def)
  have e: "ai_submit_with_key example_key_hash 1000 (Some bad_key) (Some ''hi'') None None gate_db
     = (Key_exception, gate_db)"
    by (simp add: ai_submit_with_key_def key_cast_fails_def example_key_hash_def bad_key_def)
  from w t l h1 h2 k s e show ?thesis by simp
qed

text \<open>
  Claim C6 as amended. When the content is \<open>NULL\<close> or has fewer than 10 characters after
  the leading and trailing spaces are removed (tabs, line breaks and other whitespace count
  as characters), \<open>ai_submit_post\<close>, \<open>human_submit_post\<close> and \<open>ai_submit_with_key\<close> leave
  the database unchanged, whatever the ban, the filter, the author or the key.
  \<open>human_submit_post\<close> returns the error of the length check; \<open>ai_submit_post\<close> returns an
  error-shaped result, except that it returns the fabricated success when its ban lookup
  selects a shadow ban; \<open>ai_submit_with_key\<close> returns an error-shaped result, except that
  it raises an exception when the cast of the key fails.
\<close>

theorem short_content_persists_nothing:
  assumes "content_too_short p_content"
  shows "snd (ai_submit_post lower now p_content p_title p_parent_id p_author_name p_ai_model
                p_ai_session_id db) = db
    \<and> (if shadow_selected now p_ai_session_id (forum_bans db)
       then fst (ai_submit_post lower now p_content p_title p_parent_id p_author_name p_ai_model
                   p_ai_session_id db)
            = Submit_success 0 Pending (Some ''Post submitted for moderation.'')
       else is_submit_error
              (fst (ai_submit_post lower now p_content p_title p_parent_id p_author_name
                      p_ai_model p_ai_session_id db)))
    \<and> human_submit_post now p_content p_title p_parent_id p_author_name db
        = (Submit_error ''Content must be at least 10 characters'', db)
    \<and> snd (ai_submit_with_key key_hash now p_api_key p_content p_title p_parent_id db) = db
    \<and> (if key_cast_fails key_hash p_api_key
       then fst (ai_submit_with_key key_hash now p_api_key p_content p_title p_parent_id db)
            = Key_exception
       else is_key_error
              (fst (ai_submit_with_key key_hash now p_api_key p_content p_title p_parent_id db)))"
proof -
  have ai: "snd (ai_submit_post lower now p_content p_title p_parent_id p_author_name p_ai_model
                p_ai_session_id db) = db"
    using assms by (simp add: ai_submit_post_def split: ban_status.splits)
  have shape: "if shadow_selected now p_ai_session_id (forum_bans db)
       then fst (ai_submit_post lower now p_content p_title p_parent_id p_author_name p_ai_model
                   p_ai_session_id db)
            = Submit_success 0 Pending (Some ''Post submitted for moderation.'')
       else is_submit_error
              (fst (ai_submit_post lower now p_content p_title p_parent_id p_author_name
                      p_ai_model p_ai_session_id db))"
    using assms
    by (simp add: ai_submit_post_def shadow_selected_def is_submit_error_def
        split: ban_status.splits)
  have human: "human_submit_post now p_content p_title p_parent_id p_author_name db
        = (Submit_error ''Content must be at least 10 characters'', db)"
    using assms by (simp add: human_submit_post_def)
  have key: "snd (ai_submit_with_key key_hash now p_api_key p_content p_title p_parent_id db) = db"
    using assms by (simp add: ai_submit_with_key_def split: option.splits)
  have kshape: "if key_cast_fails key_hash p_api_key
       then fst (ai_submit_with_key key_hash now p_api_key p_content p_title p_parent_id db)
            = Key_exception
       else is_key_error
              (fst (ai_submit_with_key key_hash now p_api_key p_content p_title p_parent_id db))"
    using assms by (simp add: ai_submit_with_key_def is_key_error_def split: option.splits)
  from ai shape human key kshape show ?thesis by simp
qed

theorem short_content_persists_nothing_witness:
  "content_too_short (Some ''   too short   '')
   \<and> ai_submit_post ascii_lower 1000 (Some ''   too short   '') None None ''Bot'' None
        (Some ''s9'') gate_db
       = (Submit_error ''Content must be at least 10 characters'', gate_db)
   \<and> human_submit_post 1000 (Some ''   too short   '') None None ''Guest'' gate_db
       = (Submit_error ''Content must be at least 10 characters'', gate_db)
   \<and> ai_submit_with_key example_key_hash 1000 (Some ''fa_secret'') (Some ''   too short   '')
         None None gate_db
       = (Key_error ''Content must be at least 10 characters'', gate_db)"
proof -
  have h: "content_too_short (Some ''   too short   '')"
    by (simp add: content_too_short_def trim_def)
  have f: "passed (check_content_filter ascii_lower (forum_word_filters gate_db)
             (Some ('' '' @ ''   too short   '')))"
    by code_simp
  have a: "ai_submit_post ascii_lower 1000 (Some ''   too short   '') None None ''Bot'' None
        (Some ''s9'') gate_db
       = (Submit_error ''Content must be at least 10 characters'', gate_db)"
    using h f
    by (simp add: ai_submit_post_def check_ban_status_def ban_matches_def gate_db_def
        thread_db_def empty_db_def example_ban_def)
  have k: "ai_submit_with_key example_key_hash 1000 (Some ''fa_secret'') (Some ''   too short   '')
         None None gate_db
       = (Key_error ''Content must be at least 10 characters'', gate_db)"
    using h
    by (simp add: ai_submit_with_key_def key_cast_fails_def example_key_hash_def gate_db_def
        thread_db_def empty_db_def)
  from short_content_persists_nothing [OF h, of ascii_lower 1000 None None "''Guest''" None None
      gate_db]
    h a k
  show ?thesis by simp
qed

section \<open>Submissions that are not screened\<close>

text \<open>
  Claim C2 says that every submission passes the ban check and the word filter before a
  row is stored. On the example database the content \<open>Please KYS now\<close> contains the
  blocked word \<open>kys\<close>: the filter rejects it and \<open>ai_submit_post\<close> refuses it, but
  \<open>human_submit_post\<close> stores it as an approved post; and \<open>ai_submit_with_key\<close> stores
  it, approved, for the identity \<open>s1\<close>, although the ban lookup for session \<open>s1\<close> reports
  a full ban. Neither function calls \<open>check_ban_status\<close> or \<open>check_content_filter\<close>.
\<close>

theorem submissions_bypass_gate:
  "passed (check_content_filter ascii_lower (forum_word_filters gate_db)
             (Some ('' '' @ ''Please KYS now'')))
     = False
   \<and> fst (ai_submit_post ascii_lower 1000 (Some ''Please KYS now'') None None ''Guest'' None None
            gate_db)
     = Submit_error ''Your post contains prohibited content.''
   \<and> fst (human_submit_post 1000 (Some ''Please KYS now'') None None ''Guest'' gate_db)
     = Submit_success 6 Approved None
   \<and> map (\<lambda>r. (fp_id r, fp_content r, fp_status r))
       (forum_posts (snd (human_submit_post 1000 (Some ''Please KYS now'') None None ''Guest'' gate_db)))
     = map (\<lambda>r. (fp_id r, fp_content r, fp_status r)) (forum_posts gate_db)
       @ [(6, ''Please KYS now'', Approved)]
   \<and> check_ban_status 1000 None None (Some ''s1'') (forum_bans gate_db)
     = Banned Full (Some ''spam'') (Some 9000)
   \<and> fst (ai_submit_with_key example_key_hash 1000 (Some ''fa_secret'')
            (Some ''Please KYS now'') None None gate_db)
     = Key_success 6 Approved ''Echo'' ''Post published!''
   \<and> map (\<lambda>r. (fp_id r, fp_content r, fp_status r, fp_ai_session_id r))
       (forum_posts (snd (ai_submit_with_key example_key_hash 1000 (Some ''fa_secret'')
            (Some ''Please KYS now'') None None gate_db)))
     = map (\<lambda>r. (fp_id r, fp_content r, fp_status r, fp_ai_session_id r)) (forum_posts gate_db)
       @ [(6, ''Please KYS now'', Approved, Some ''s1'')]"
proof -
  have f: "passed (check_content_filter ascii_lower (forum_word_filters gate_db)
             (Some ('' '' @ ''Please KYS now''))) = False"
    by code_simp
  have long: "\<not> content_too_short (Some ''Please KYS now'')"
    by (simp add: content_too_short_def trim_def)
  have t: "trim ''Please KYS now'' = ''Please KYS now''"
    by (simp add: trim_def)
  have a: "fst (ai_submit_post ascii_lower 1000 (Some ''Please KYS now'') None None ''Guest'' None
                 None gate_db)
     = Submit_error ''Your post contains prohibited content.''"
    using f by (simp add: ai_submit_post_def check_ban_status_def ban_matches_def gate_db_def
        thread_db_def empty_db_def example_ban_def)
  have h: "human_submit_post 1000 (Some ''Please KYS now'') None None ''Guest'' gate_db
     = (case insert_post 1000 None ''Please KYS now'' ''Guest'' Human None None Approved None None
               gate_db of (i, d) \<Rightarrow> (Submit_success i Approved None, d))"
    using long by (simp add: human_submit_post_def)
  have h1: "fst (human_submit_post 1000 (Some ''Please KYS now'') None None ''Guest'' gate_db)
     = Submit_success 6 Approved None"
    unfolding h
    by (simp add: insert_post_def Let_def gate_db_def thread_db_def empty_db_def)
  have h2: "map (\<lambda>r. (fp_id r, fp_content r, fp_status r))
       (forum_posts (snd (human_submit_post 1000 (Some ''Please KYS now'') None None ''Guest'' gate_db)))
     = map (\<lambda>r. (fp_id r, fp_content r, fp_status r)) (forum_posts gate_db)
       @ [(6, ''Please KYS now'', Approved)]"
    unfolding h
    by (simp add: insert_post_def Let_def gate_db_def thread_db_def empty_db_def
        update_forum_posts_keep_status update_forum_post_timestamp_def example_post_def)
  have b: "check_ban_status 1000 None None (Some ''s1'') (forum_bans gate_db)
     = Banned Full (Some ''spam'') (Some 9000)"
    by (simp add: gate_db_def thread_db_def empty_db_def example_ban_def check_ban_status_def
        ban_matches_def ban_is_not_null_def)
  have k1: "fst (ai_submit_with_key example_key_hash 1000 (Some ''fa_secret'')
            (Some ''Please KYS now'') None None gate_db)
     = Key_success 6 Approved ''Echo'' ''Post published!''"
    using long t
    by (simp add: ai_submit_with_key_def key_cast_fails_def example_key_hash_def insert_post_def
        Let_def gate_db_def thread_db_def empty_db_def)
  have k2: "map (\<lambda>r. (fp_id r, fp_content r, fp_status r, fp_ai_session_id r))
       (forum_posts (snd (ai_submit_with_key example_key_hash 1000 (Some ''fa_secret'')
            (Some ''Please KYS now'') None None gate_db)))
     = map (\<lambda>r. (fp_id r, fp_content r, fp_status r, fp_ai_session_id r)) (forum_posts gate_db)
       @ [(6, ''Please KYS now'', Approved, Some ''s1'')]"
    using long t
    by (simp add: ai_submit_with_key_def key_cast_fails_def example_key_hash_def insert_post_def
        Let_def gate_db_def thread_db_def empty_db_def update_forum_posts_keep_status
        update_forum_post_timestamp_def example_post_def)
  from f a h1 h2 b k1 k2 show ?thesis by blast
qed

section \<open>The vote aggregate\<close>

lemma add_score_add_score: "add_score p d (add_score p e xs) = add_score p (e + d) xs"
  by (induction xs) (auto simp add: add_score_def)

lemma add_score_zero: "add_score p 0 xs = xs"
  by (induction xs) (auto simp add: add_score_def)

lemma scores_update_vote_score:
  "scores (update_forum_posts now (\<lambda>r. fp_id r = p)
             (\<lambda>r. r\<lparr>fp_vote_score := g r\<rparr>) posts)
   = map (\<lambda>r. (fp_id r, if fp_id r = p then g r else fp_vote_score r)) posts"
proof -
  have "update_forum_posts now (\<lambda>r. fp_id r = p) (\<lambda>r. r\<lparr>fp_vote_score := g r\<rparr>) posts
        = map (\<lambda>r. if fp_id r = p
                     then update_forum_post_timestamp now (r\<lparr>fp_vote_score := g r\<rparr>) else r) posts"
    by (rule update_forum_posts_keep_status) simp
  then show ?thesis by (simp add: scores_def update_forum_post_timestamp_def)
qed

lemma scores_insert:
  "scores (update_post_vote_score now (Tg_insert new) posts)
   = add_score (fv_post_id new) (fv_vote_type new) (scores posts)"
  by (simp add: scores_update_vote_score) (simp add: scores_def add_score_def)

lemma scores_delete:
  "scores (update_post_vote_score now (Tg_delete old) posts)
   = add_score (fv_post_id old) (- fv_vote_type old) (scores posts)"
  by (simp add: scores_update_vote_score) (simp add: scores_def add_score_def)

lemma scores_update:
  "scores (update_post_vote_score now (Tg_update old new) posts)
   = add_score (fv_post_id new) (fv_vote_type new - fv_vote_type old) (scores posts)"
  by (simp add: scores_update_vote_score) (simp add: scores_def add_score_def)

lemma scores_fold_delete:
  "\<forall>d \<in> set ds. fv_post_id d = p \<Longrightarrow>
   scores (fold (\<lambda>old. update_post_vote_score now (Tg_delete old)) ds posts)
   = add_score p (- sum_list (map fv_vote_type ds)) (scores posts)"
proof (induction ds arbitrary: posts)
  case Nil
  then show ?case by (simp add: add_score_zero)
next
  case (Cons d ds)
  then show ?case
    by (simp add: scores_delete add_score_add_score del: update_post_vote_score.simps)
qed

lemma scores_fold_update:
  "\<forall>d \<in> set ds. fv_post_id d = p \<Longrightarrow>
   scores (fold (\<lambda>old. update_post_vote_score now
                          (Tg_update old (old\<lparr>fv_vote_type := s, fv_created_at := now\<rparr>)))
             ds posts)
   = add_score p (sum_list (map (\<lambda>d. s - fv_vote_type d) ds)) (scores posts)"
proof (induction ds arbitrary: posts)
  case Nil
  then show ?case by (simp add: add_score_zero)
next
  case (Cons d ds)
  then show ?case
    by (simp add: scores_update add_score_add_score del: update_post_vote_score.simps)
qed

lemma vote_sum_append:
  "vote_sum (votes @ [v]) pid = vote_sum votes pid + (if fv_post_id v = pid then fv_vote_type v else 0)"
  by (simp add: vote_sum_def)

lemma vote_sum_remove:
  "\<forall>v. mine v \<longrightarrow> fv_post_id v = p \<Longrightarrow>
   vote_sum (filter (\<lambda>v. \<not> mine v) votes) pid
   = vote_sum votes pid - (if pid = p then sum_list (map fv_vote_type (filter mine votes)) else 0)"
  by (induction votes) (auto simp add: vote_sum_def)

lemma vote_sum_switch:
  "\<forall>v. mine v \<longrightarrow> fv_post_id v = p \<Longrightarrow>
   vote_sum (map (\<lambda>v. if mine v then v\<lparr>fv_vote_type := s, fv_created_at := now\<rparr> else v) votes) pid
   = vote_sum votes pid
     + (if pid = p then sum_list (map (\<lambda>d. s - fv_vote_type d) (filter mine votes)) else 0)"
  by (induction votes) (auto simp add: vote_sum_def)

lemma score_consistent_scores:
  "score_consistent db = (\<forall>(i, sc) \<in> set (scores (forum_posts db)). sc = vote_sum (forum_votes db) i)"
  by (auto simp add: score_consistent_def scores_def list_all_iff)

lemma consistentI:
  assumes "\<forall>(i, sc) \<in> set (scores posts). sc = vote_sum votes i"
    and "\<forall>i. vote_sum votes' i = vote_sum votes i + (if i = p then d else 0)"
    and "scores posts' = add_score p d (scores posts)"
  shows "\<forall>(i, sc) \<in> set (scores posts'). sc = vote_sum votes' i"
  using assms by (auto simp add: add_score_def)

lemma toggle_vote_consistent:
  assumes "score_consistent db"
  shows "score_consistent (snd (toggle_vote auth_uid now p s db))"
proof (cases auth_uid)
  case None
  with assms show ?thesis by (simp add: toggle_vote_def)
next
  case (Some u)
  let ?mine = "\<lambda>v. fv_user_id v = u \<and> fv_post_id v = p"
  let ?votes = "forum_votes db"
  let ?posts = "forum_posts db"
  have mine_p: "\<forall>v. ?mine v \<longrightarrow> fv_post_id v = p" by simp
  have in_p: "\<forall>d \<in> set (filter ?mine ?votes). fv_post_id d = p" by simp
  from assms have inv: "\<forall>(i, sc) \<in> set (scores ?posts). sc = vote_sum ?votes i"
    by (simp add: score_consistent_scores)
  let ?new = "\<lparr>fv_id = forum_votes_id_seq db, fv_user_id = u, fv_post_id = p,
               fv_vote_type = s, fv_created_at = now\<rparr>"
  let ?ins = "db\<lparr>forum_votes := ?votes @ [?new],
                 forum_votes_id_seq := forum_votes_id_seq db + 1,
                 forum_posts := update_post_vote_score now (Tg_insert ?new) ?posts\<rparr>"
  let ?del = "db\<lparr>forum_votes := filter (\<lambda>v. \<not> ?mine v) ?votes,
                 forum_posts := fold (\<lambda>old. update_post_vote_score now (Tg_delete old))
                                  (filter ?mine ?votes) ?posts\<rparr>"
  let ?upd = "db\<lparr>forum_votes :=
                   map (\<lambda>v. if ?mine v then v\<lparr>fv_vote_type := s, fv_created_at := now\<rparr> else v)
                     ?votes,
                 forum_posts :=
                   fold (\<lambda>old. update_post_vote_score now
                                  (Tg_update old (old\<lparr>fv_vote_type := s, fv_created_at := now\<rparr>)))
                     (filter ?mine ?votes) ?posts\<rparr>"
  have cases: "snd (toggle_vote auth_uid now p s db) \<in> {db, ?ins, ?del, ?upd}"
    unfolding toggle_vote_def Some
    by (simp add: Let_def del: update_post_vote_score.simps split: option.splits)
  have sc_ins: "scores (update_post_vote_score now (Tg_insert ?new) ?posts)
                = add_score p s (scores ?posts)"
    using scores_insert [of now ?new ?posts] by (simp del: update_post_vote_score.simps)
  have vs_ins: "\<forall>i. vote_sum (?votes @ [?new]) i = vote_sum ?votes i + (if i = p then s else 0)"
    by (simp add: vote_sum_append)
  have vs_del: "\<forall>i. vote_sum (filter (\<lambda>v. \<not> ?mine v) ?votes) i
                  = vote_sum ?votes i
                    + (if i = p then - sum_list (map fv_vote_type (filter ?mine ?votes)) else 0)"
    using vote_sum_remove [OF mine_p] by simp
  have vs_upd: "\<forall>i. vote_sum (map (\<lambda>v. if ?mine v
                                        then v\<lparr>fv_vote_type := s, fv_created_at := now\<rparr> else v)
                                 ?votes) i
                  = vote_sum ?votes i
                    + (if i = p then sum_list (map (\<lambda>d. s - fv_vote_type d) (filter ?mine ?votes))
                       else 0)"
    using vote_sum_switch [OF mine_p] by simp
  have ins: "score_consistent ?ins"
    using consistentI [OF inv vs_ins sc_ins]
    by (simp add: score_consistent_scores del: update_post_vote_score.simps)
  have del: "score_consistent ?del"
    using consistentI [OF inv vs_del scores_fold_delete [OF in_p]]
    by (simp add: score_consistent_scores del: update_post_vote_score.simps)
  have upd: "score_consistent ?upd"
    using consistentI [OF inv vs_upd scores_fold_update [OF in_p]]
    by (simp add: score_consistent_scores del: update_post_vote_score.simps)
  from cases assms ins del upd show ?thesis by auto
qed

lemma toggle_votes_consistent:
  "score_consistent db \<Longrightarrow> score_consistent (toggle_votes calls db)"
  by (induction calls arbitrary: db) (simp_all add: toggle_vote_consistent)


lemma find_unique_filter:
  assumes "distinct (map k xs)" and "find P xs = Some e" and "\<forall>v. P v = (k v = key)"
  shows "filter P xs = [e]"
proof -
  from assms(3) have P: "P = (\<lambda>v. k v = key)" by auto
  from assms(2) have "e \<in> set xs" and "k e = key"
    unfolding P by (auto simp add: find_Some_iff)
  with filter_key_single [OF assms(1), of e] show ?thesis
    unfolding P by simp
qed

lemma toggle_vote_delta:
  assumes wf: "votes_wellformed (forum_votes db)"
    and sign: "s = 1 \<or> s = - 1"
    and post: "list_ex (\<lambda>r. fp_id r = p) (forum_posts db)"
  shows "scores (forum_posts (snd (toggle_vote (Some u) now p s db)))
         = add_score p (vote_delta (forum_votes db) u p s) (scores (forum_posts db))"
proof -
  let ?mine = "\<lambda>v. fv_user_id v = u \<and> fv_post_id v = p"
  let ?k = "\<lambda>v. (fv_user_id v, fv_post_id v)"
  have mine_k: "\<forall>v. ?mine v = (?k v = (u, p))" by auto
  from wf have dist: "distinct (map ?k (forum_votes db))"
    and valid: "\<forall>v \<in> set (forum_votes db). fv_vote_type v = 1 \<or> fv_vote_type v = - 1"
    by (simp_all add: votes_wellformed_def list_all_iff)
  show ?thesis
  proof (cases "find ?mine (forum_votes db)")
    case None
    with sign post show ?thesis
      by (auto simp add: toggle_vote_def Let_def vote_delta_def scores_insert
          simp del: update_post_vote_score.simps)
  next
    case (Some e)
    from find_unique_filter [OF dist Some mine_k]
    have one: "filter ?mine (forum_votes db) = [e]" .
    from Some have e: "e \<in> set (forum_votes db)" "fv_post_id e = p"
      by (auto simp add: find_Some_iff)
    with valid have ve: "fv_vote_type e = 1 \<or> fv_vote_type e = - 1" by blast
    show ?thesis
    proof (cases "fv_vote_type e = s")
      case True
      with Some post one e(2) show ?thesis
        by (simp add: toggle_vote_def Let_def vote_delta_def scores_delete
            del: update_post_vote_score.simps)
    next
      case False
      with ve sign have "s - fv_vote_type e = 2 * s" by auto
      with False Some post one e(2) sign show ?thesis
        by (auto simp add: toggle_vote_def Let_def vote_delta_def scores_update
            simp del: update_post_vote_score.simps)
    qed
  qed
qed

lemma toggle_vote_rows:
  assumes sign: "s = 1 \<or> s = - 1"
    and post: "list_ex (\<lambda>r. fp_id r = p) (forum_posts db)"
  shows "vote_keys (forum_votes (snd (toggle_vote (Some u) now p s db)))
         = (case find (\<lambda>v. fv_user_id v = u \<and> fv_post_id v = p) (forum_votes db) of
              None \<Rightarrow> vote_keys (forum_votes db) @ [(u, p, s)]
            | Some existing \<Rightarrow>
                if fv_vote_type existing = s
                then filter (\<lambda>(a, b, t). \<not> (a = u \<and> b = p)) (vote_keys (forum_votes db))
                else map (\<lambda>(a, b, t). if a = u \<and> b = p then (a, b, s) else (a, b, t))
                       (vote_keys (forum_votes db)))"
  using assms
  by (auto simp add: toggle_vote_def Let_def vote_keys_def filter_map comp_def
      simp del: update_post_vote_score.simps split: option.splits)

text \<open>
  Claim C8. First: if every stored score is the signed sum of the vote rows of its post,
  this is still so after any sequence of \<open>toggle_vote\<close> calls, by any callers, on any
  posts, with any arguments. Second: for one call by an authenticated caller with sign 1
  or -1 on an existing post, on a vote table that satisfies its constraints, the scores
  after the call are the scores before with one number added to the score of that post,
  the sign when the caller had no vote (a row is appended), minus the sign when the
  caller's vote had that sign (the row is removed), and twice the sign when it had the
  other sign (the row is changed in place). The second part holds in every state, also
  one where the stored score is not the sum: the score is adjusted, not recomputed.
\<close>

theorem toggle_vote_keeps_score:
  "(score_consistent db \<longrightarrow> score_consistent (toggle_votes calls db))
   \<and> (votes_wellformed (forum_votes db) \<and> (s = 1 \<or> s = - 1)
        \<and> list_ex (\<lambda>r. fp_id r = p) (forum_posts db) \<longrightarrow>
      scores (forum_posts (snd (toggle_vote (Some u) now p s db)))
        = add_score p (vote_delta (forum_votes db) u p s) (scores (forum_posts db))
      \<and> vote_keys (forum_votes (snd (toggle_vote (Some u) now p s db)))
        = (case find (\<lambda>v. fv_user_id v = u \<and> fv_post_id v = p) (forum_votes db) of
              None \<Rightarrow> vote_keys (forum_votes db) @ [(u, p, s)]
            | Some existing \<Rightarrow>
                if fv_vote_type existing = s
                then filter (\<lambda>(a, b, t). \<not> (a = u \<and> b = p)) (vote_keys (forum_votes db))
                else map (\<lambda>(a, b, t). if a = u \<and> b = p then (a, b, s) else (a, b, t))
                       (vote_keys (forum_votes db))))"
  using toggle_votes_consistent toggle_vote_delta toggle_vote_rows by blast

lemmas vote_eval =
  vote_db_def thread_db_def empty_db_def example_post_def example_calls_def
  toggle_vote_def update_forum_posts_def update_forum_post_timestamp_def
  handle_parent_deletion_def score_of_def scores_def vote_keys_def Let_def

theorem toggle_vote_keeps_score_witness:
  "score_consistent vote_db
   \<and> votes_wellformed (forum_votes vote_db)
   \<and> scores (forum_posts vote_db) = [(1, 0), (2, 0), (3, 0), (4, 0), (5, 0)]
   \<and> score_consistent (toggle_votes example_calls vote_db)
   \<and> scores (forum_posts (toggle_votes example_calls vote_db))
       = [(1, 1), (2, 1), (3, 0), (4, 0), (5, 0)]
   \<and> vote_keys (forum_votes (toggle_votes example_calls vote_db))
       = [(''bob'', 1, 1), (''carol'', 2, 1)]
   \<and> vote_delta (forum_votes vote_db) ''bob'' 1 1 = 2
   \<and> scores (forum_posts (snd (toggle_vote (Some ''bob'') 100 1 1 vote_db)))
       = [(1, 2), (2, 0), (3, 0), (4, 0), (5, 0)]"
proof -
  have h1: "score_consistent vote_db"
    by (simp add: score_consistent_def vote_sum_def vote_eval)
  have h2: "votes_wellformed (forum_votes vote_db)"
    by (simp add: votes_wellformed_def vote_eval)
  have h3: "list_ex (\<lambda>r. fp_id r = 1) (forum_posts vote_db)"
    by (simp add: vote_eval)
  have s0: "scores (forum_posts vote_db) = [(1, 0), (2, 0), (3, 0), (4, 0), (5, 0)]"
    by (simp add: vote_eval)
  have d: "vote_delta (forum_votes vote_db) ''bob'' 1 1 = 2"
    by (simp add: vote_delta_def vote_eval)
  have run: "scores (forum_posts (toggle_votes example_calls vote_db))
       = [(1, 1), (2, 1), (3, 0), (4, 0), (5, 0)]"
    by (simp add: vote_eval)
  have keys: "vote_keys (forum_votes (toggle_votes example_calls vote_db))
       = [(''bob'', 1, 1), (''carol'', 2, 1)]"
    by (simp add: vote_eval)
  note inst = toggle_vote_keeps_score [of vote_db example_calls 1 1 "''bob''" 100]
  from inst h1 have c: "score_consistent (toggle_votes example_calls vote_db)" by blast
  from inst h2 h3 have "scores (forum_posts (snd (toggle_vote (Some ''bob'') 100 1 1 vote_db)))
        = add_score 1 (vote_delta (forum_votes vote_db) ''bob'' 1 1) (scores (forum_posts vote_db))"
    by blast
  then have one: "scores (forum_posts (snd (toggle_vote (Some ''bob'') 100 1 1 vote_db)))
       = [(1, 2), (2, 0), (3, 0), (4, 0), (5, 0)]"
    by (simp add: d s0 add_score_def)
  from h1 h2 s0 c run keys d one show ?thesis by blast
qed

section \<open>When the evaluator triggers\<close>



lemmas trigger_eval =
  trigger_db_def capped_db_def uncastable_db_def boundary_db_def default_settings_def
  thread_db_def empty_db_def example_post_def
  complete_post_def check_ai_trigger_def settings_castable_def setting_or_def metric_incr_def
  metric_reset_def hours_since_ai_def last_ai_time_def is_post_or_reply_def posts_since_ai_def
  daily_ai_count_def should_trigger_def available_personas_def personas_def choose_persona_def
  select_target_def target_candidate_def target_json_def post_is_not_null_def Let_def




section \<open>The target post of a trigger\<close>

text \<open>
  Claim C7 says that a triggered evaluation returns the most recently created approved
  human post of the last 7 days that has no later AI post in its thread. The query
  selects that post, but the result is built under \<open>v_target_post IS NOT NULL\<close>, which is
  false as soon as one column of the selected row is \<open>NULL\<close>. On the example thread
  posts 1, 2 and 4 qualify and the query selects post 4, the latest; it is a guest reply
  without title, user or moderator, and the evaluation returns a null target. With one
  more qualifying post in which every column is set, that post is returned.
\<close>

theorem trigger_target_dropped:
  "map fp_id (filter (target_candidate 1000 (forum_posts trigger_db)) (forum_posts trigger_db))
     = [1, 2, 4]
   \<and> map_option (\<lambda>r. (fp_id r, fp_created_at r)) (select_target 1000 (forum_posts trigger_db))
     = Some (4, 40)
   \<and> fst (check_ai_trigger (numeric_div_scale 20) 1000 0 (1 / 2) trigger_db)
     = Triggered ''Sam'' None
         \<lparr>m_hours_since_ai = 999, m_posts_since_ai = 3, m_views_since_ai = Some 20\<rparr>
   \<and> fst (check_ai_trigger (numeric_div_scale 20) 1000 0 (1 / 2)
            (trigger_db\<lparr>forum_posts := forum_posts trigger_db @ [complete_post]\<rparr>))
     = Triggered ''Sam''
         (Some \<lparr>tp_id = 6, tp_title = Some ''Re: Hello'',
                tp_content = ''A reply by a member, approved by hand'', tp_author = ''Alice''\<rparr>)
         \<lparr>m_hours_since_ai = 999, m_posts_since_ai = 4, m_views_since_ai = Some 20\<rparr>"
  by (simp add: trigger_eval)

end
